theory Spec2Isabelle
  imports Complex_Main
begin

section \<open>Python failures as values\<close>

text \<open>
  The source is Python: a call with a missing required argument raises \<open>TypeError\<close>
  before the body runs, \<open>xs[i]\<close> out of range raises \<open>IndexError\<close>, a failed
  \<open>assert\<close> raises \<open>AssertionError\<close>, and the code itself raises
  \<open>NotImplementedError\<close> and \<open>Exception\<close>. Every function that can fail returns
  \<open>py_error + 'a\<close>, the error on the left.
\<close>

datatype py_error =
    TypeError
  | ValueError
  | IndexError
  | KeyError
  | ZeroDivisionError
  | AssertionError
  | NotImplementedError string
  | AttributeError
  | Exception string
  | SystemExit

type_synonym 'a result = "py_error + 'a"

definition and_then :: "'a result \<Rightarrow> ('a \<Rightarrow> 'b result) \<Rightarrow> 'b result" where
  "and_then m f = (case m of Inl e \<Rightarrow> Inl e | Inr a \<Rightarrow> f a)"

section \<open>Named-dimension tensors\<close>

text \<open>
  A mesh-tensorflow tensor has a shape, an ordered list of dimensions (name, size), and
  its operations address dimensions by name. The model keeps the shape and reads the
  tensor's entries through a coordinate assignment that gives every dimension name a
  coordinate: a tensor that lacks a dimension does not look at that name, which is
  broadcasting by name. Entries are real numbers (the dtype casts of the source are the
  identity here). Elementwise operations are total; the operations that look a dimension
  up by name (\<open>rename_dimension\<close>, \<open>cumsum\<close>, \<open>softmax\<close>, \<open>einsum\<close>) fail with
  \<open>ValueError\<close> as the library does when the name is missing or names disagree in size.
\<close>

type_synonym dimension = "string \<times> nat"

type_synonym coords = "string \<Rightarrow> nat"

record tensor =
  shape :: "dimension list"
  val :: "coords \<Rightarrow> real"

definition dim_name :: "dimension \<Rightarrow> string" where
  "dim_name d = fst d"

definition dim_size :: "dimension \<Rightarrow> nat" where
  "dim_size d = snd d"

definition dimension_names :: "dimension list \<Rightarrow> string list" where
  "dimension_names ds = map dim_name ds"

definition union_dims :: "dimension list \<Rightarrow> dimension list \<Rightarrow> dimension list" where
  "union_dims xs ys = xs @ filter (\<lambda>d. d \<notin> set xs) ys"

definition scalar :: "real \<Rightarrow> tensor" where
  "scalar r = \<lparr>shape = [], val = (\<lambda>c. r)\<rparr>"

definition unary_op :: "(real \<Rightarrow> real) \<Rightarrow> tensor \<Rightarrow> tensor" where
  "unary_op f x = \<lparr>shape = shape x, val = (\<lambda>c. f (val x c))\<rparr>"

definition binary_op :: "(real \<Rightarrow> real \<Rightarrow> real) \<Rightarrow> tensor \<Rightarrow> tensor \<Rightarrow> tensor" where
  "binary_op f x y =
     \<lparr>shape = union_dims (shape x) (shape y), val = (\<lambda>c. f (val x c) (val y c))\<rparr>"

definition tadd :: "tensor \<Rightarrow> tensor \<Rightarrow> tensor" where
  "tadd = binary_op (+)"

definition tsub :: "tensor \<Rightarrow> tensor \<Rightarrow> tensor" where
  "tsub = binary_op (-)"

definition tmul :: "tensor \<Rightarrow> tensor \<Rightarrow> tensor" where
  "tmul = binary_op (*)"

definition tdiv :: "tensor \<Rightarrow> tensor \<Rightarrow> tensor" where
  "tdiv = binary_op (/)"

text \<open>\<open>shape[-1]\<close> and \<open>shape[i]\<close>: \<open>IndexError\<close> out of range.\<close>

definition shape_last :: "tensor \<Rightarrow> dimension result" where
  "shape_last x = (if shape x = [] then Inl IndexError else Inr (last (shape x)))"

definition shape_at :: "tensor \<Rightarrow> nat \<Rightarrow> dimension result" where
  "shape_at x i = (if i < length (shape x) then Inr (shape x ! i) else Inl IndexError)"

text \<open>
  \<open>sum_over ds f c\<close> sums \<open>f\<close> over every coordinate of the dimensions \<open>ds\<close>, the
  other coordinates as in \<open>c\<close>.
\<close>

fun sum_over :: "dimension list \<Rightarrow> (coords \<Rightarrow> real) \<Rightarrow> coords \<Rightarrow> real" where
  "sum_over [] f c = f c"
| "sum_over (d # ds) f c =
     sum_list (map (\<lambda>j. sum_over ds f (c(dim_name d := j))) [0..<dim_size d])"

text \<open>
  \<open>mtf.reduce_mean(x, reduced_dim=d)\<close> and \<open>mtf.reduce_mean(x)\<close> (over every
  dimension): the sum times output size over input size.
\<close>

definition shape_size :: "dimension list \<Rightarrow> nat" where
  "shape_size ds = prod_list (map dim_size ds)"

definition reduce_mean :: "tensor \<Rightarrow> dimension \<Rightarrow> tensor" where
  "reduce_mean x d =
     \<lparr>shape = removeAll d (shape x),
      val = (\<lambda>c. sum_over [d] (val x) c / real (dim_size d))\<rparr>"

definition reduce_mean_all :: "tensor \<Rightarrow> tensor" where
  "reduce_mean_all x =
     \<lparr>shape = [], val = (\<lambda>c. sum_over (shape x) (val x) c / real (shape_size (shape x)))\<rparr>"

text \<open>
  \<open>mtf.rename_dimension(x, old, new)\<close>: the same entries, read under the new name.
  The library raises \<open>ValueError\<close> when \<open>x\<close> has no dimension \<open>old\<close>.
\<close>

definition rename_dimension :: "tensor \<Rightarrow> string \<Rightarrow> string \<Rightarrow> tensor result" where
  "rename_dimension x old new =
     (if old \<in> set (dimension_names (shape x))
      then Inr \<lparr>shape = map (\<lambda>d. if dim_name d = old then (new, dim_size d) else d) (shape x),
                val = (\<lambda>c. val x (c(old := c new)))\<rparr>
      else Inl ValueError)"

text \<open>
  \<open>mtf.cumsum(x, dim)\<close> (inclusive): entry \<open>t\<close> along \<open>dim\<close> is the sum of the entries
  \<open>j \<le> t\<close>; the library contracts \<open>x\<close> with the matrix of \<open>j \<le> t\<close>.
\<close>

definition cumsum :: "tensor \<Rightarrow> dimension \<Rightarrow> tensor result" where
  "cumsum x d =
     (if dim_name d \<in> set (dimension_names (shape x))
      then Inr \<lparr>shape = shape x,
                val = (\<lambda>c. sum_list (map (\<lambda>j. if j \<le> c (dim_name d)
                                                then val x (c(dim_name d := j)) else 0)
                                        [0..<dim_size d]))\<rparr>
      else Inl ValueError)"

text \<open>\<open>mtf.softmax(x, reduced_dim)\<close>: the exponentials, normalised along the dimension.\<close>

definition softmax :: "tensor \<Rightarrow> dimension \<Rightarrow> tensor result" where
  "softmax x d =
     (if d \<in> set (shape x)
      then Inr \<lparr>shape = shape x,
                val = (\<lambda>c. exp (val x c) / sum_over [d] (\<lambda>c'. exp (val x c')) c)\<rparr>
      else Inl ValueError)"

definition elu :: "tensor \<Rightarrow> tensor" where
  "elu = unary_op (\<lambda>r. if r > 0 then r else exp r - 1)"

text \<open>
  \<open>mtf.einsum(xs, output_shape)\<close>: the product of the operands, summed over every
  dimension of an operand that is not in the output shape. Two dimensions of one name
  and different sizes among the operands and the output are refused.
\<close>

definition einsum_dims :: "tensor list \<Rightarrow> dimension list \<Rightarrow> dimension list" where
  "einsum_dims xs out = remdups (out @ concat (map shape xs))"

definition contracted_dims :: "tensor list \<Rightarrow> dimension list \<Rightarrow> dimension list" where
  "contracted_dims xs out = filter (\<lambda>d. d \<notin> set out) (remdups (concat (map shape xs)))"

definition einsum :: "tensor list \<Rightarrow> dimension list \<Rightarrow> tensor result" where
  "einsum xs out =
     (if distinct (dimension_names (einsum_dims xs out))
      then Inr \<lparr>shape = out,
                val = sum_over (contracted_dims xs out)
                        (\<lambda>c. prod_list (map (\<lambda>x. val x c) xs))\<rparr>
      else Inl ValueError)"

text \<open>
  The other primitives the source calls. \<open>mtf.range(mesh, dim)\<close> holds each
  coordinate of \<open>dim\<close>; \<open>mtf.one_hot(indices, dim)\<close> is 1 where the coordinate of
  \<open>dim\<close> equals the index and 0 elsewhere (an index outside the dimension gives zeros);
  \<open>mtf.gather(weights, indices, dim)\<close> contracts \<open>weights\<close> with that one-hot
  tensor; \<open>mtf.broadcast\<close> changes the shape only; \<open>mtf.concat\<close> puts the second
  tensor after the first along a dimension; \<open>mtf.replace_dimensions\<close> and
  \<open>mtf.reshape\<close> are refused (\<open>ValueError\<close>) when the sizes differ;
  \<open>mtf.split(x, dim, 2)\<close> cuts a dimension in two halves.
\<close>

definition range_t :: "dimension \<Rightarrow> tensor" where
  "range_t d = \<lparr>shape = [d], val = (\<lambda>c. real (c (dim_name d)))\<rparr>"

definition one_hot :: "tensor \<Rightarrow> dimension \<Rightarrow> tensor" where
  "one_hot indices d =
     \<lparr>shape = shape indices @ [d],
      val = (\<lambda>c. if val indices c = real (c (dim_name d)) then 1 else 0)\<rparr>"

definition gather :: "tensor \<Rightarrow> tensor \<Rightarrow> dimension \<Rightarrow> tensor" where
  "gather weights indices d =
     \<lparr>shape = shape indices @ removeAll d (shape weights),
      val = (\<lambda>c. sum_list (map (\<lambda>j. (if val indices c = real j then 1 else 0)
                                        * val weights (c(dim_name d := j)))
                               [0..<dim_size d]))\<rparr>"

definition broadcast :: "tensor \<Rightarrow> dimension list \<Rightarrow> tensor" where
  "broadcast x new_shape = \<lparr>shape = new_shape, val = val x\<rparr>"

definition concat_dim :: "tensor \<Rightarrow> tensor \<Rightarrow> string \<Rightarrow> tensor result" where
  "concat_dim x y name =
     (case (filter (\<lambda>d. dim_name d = name) (shape x), filter (\<lambda>d. dim_name d = name) (shape y)) of
        ([dx], [dy]) \<Rightarrow>
          Inr \<lparr>shape = map (\<lambda>d. if dim_name d = name then (name, dim_size dx + dim_size dy) else d)
                          (shape x),
               val = (\<lambda>c. if c name < dim_size dx then val x c
                           else val y (c(name := c name - dim_size dx)))\<rparr>
      | _ \<Rightarrow> Inl ValueError)"

definition replace_dimensions :: "tensor \<Rightarrow> dimension \<Rightarrow> dimension \<Rightarrow> tensor result" where
  "replace_dimensions x old new =
     (if old \<in> set (shape x) \<and> dim_size old = dim_size new
      then Inr \<lparr>shape = map (\<lambda>d. if d = old then new else d) (shape x),
                val = (\<lambda>c. val x (c(dim_name old := c (dim_name new))))\<rparr>
      else Inl ValueError)"

definition reshape :: "tensor \<Rightarrow> dimension list \<Rightarrow> tensor result" where
  "reshape x new_shape =
     (if shape x = new_shape then Inr x
      else (case (shape x, new_shape) of
              ([d1, d2, e], [a, e']) \<Rightarrow>
                if e' = e \<and> dim_size a = dim_size d1 * dim_size d2
                then Inr \<lparr>shape = new_shape,
                          val = (\<lambda>c. val x (c(dim_name d1 := c (dim_name a) div dim_size d2,
                                               dim_name d2 := c (dim_name a) mod dim_size d2)))\<rparr>
                else Inl ValueError
            | _ \<Rightarrow> Inl ValueError))"

definition split_dim :: "tensor \<Rightarrow> dimension \<Rightarrow> (tensor \<times> tensor) result" where
  "split_dim x d =
     (if d \<in> set (shape x) \<and> dim_size d mod 2 = 0
      then (let half = (dim_name d, dim_size d div 2);
                shp = map (\<lambda>e. if e = d then half else e) (shape x)
            in Inr (\<lparr>shape = shp, val = val x\<rparr>,
                    \<lparr>shape = shp,
                     val = (\<lambda>c. val x (c(dim_name d := c (dim_name d) + dim_size d div 2)))\<rparr>))
      else Inl ValueError)"

definition square :: "tensor \<Rightarrow> tensor" where
  "square = unary_op (\<lambda>r. r * r)"

definition rsqrt :: "tensor \<Rightarrow> tensor" where
  "rsqrt = unary_op (\<lambda>r. 1 / sqrt r)"

definition gelu :: "tensor \<Rightarrow> tensor" where
  "gelu = unary_op (\<lambda>r. 0.5 * r * (1 + tanh (sqrt (2 / pi) * (r + 0.044715 * r ^ 3))))"

definition zeros_like :: "tensor \<Rightarrow> tensor" where
  "zeros_like x = \<lparr>shape = shape x, val = (\<lambda>c. 0)\<rparr>"

definition not_equal :: "tensor \<Rightarrow> tensor \<Rightarrow> tensor" where
  "not_equal = binary_op (\<lambda>a b. if a \<noteq> b then 1 else 0)"

definition where_t :: "tensor \<Rightarrow> tensor \<Rightarrow> tensor \<Rightarrow> tensor" where
  "where_t cond x y =
     \<lparr>shape = union_dims (shape cond) (union_dims (shape x) (shape y)),
      val = (\<lambda>c. if val cond c \<noteq> 0 then val x c else val y c)\<rparr>"

section \<open>Linear attention\<close>

text \<open>
  \<open>linear_attention(q, k, v, epsilon=1e-6)\<close> of \<open>gpt2.py\<close>. The first four
  dimensions of \<open>v\<close> are read by position (\<open>IndexError\<close> when there are fewer).
\<close>

definition linear_attention :: "tensor \<Rightarrow> tensor \<Rightarrow> tensor \<Rightarrow> real \<Rightarrow> tensor result" where
  "linear_attention q k v epsilon =
     and_then (shape_at v 0) (\<lambda>batch_dim.
     and_then (shape_at v 1) (\<lambda>seq_dim.
     and_then (shape_at v 2) (\<lambda>head_dim.
     and_then (shape_at v 3) (\<lambda>dim_out.
     and_then (rename_dimension q ''features_per_head'' ''features_per_head_in'') (\<lambda>q.
     and_then (rename_dimension k ''features_per_head'' ''features_per_head_in'') (\<lambda>k.
     and_then (shape_last k) (\<lambda>dim_in.
     and_then (softmax q dim_in) (\<lambda>q.
     let k = tadd (elu k) (scalar 1) in
     and_then (cumsum k seq_dim) (\<lambda>cumulative_k.
     and_then (einsum [k, v] [batch_dim, seq_dim, head_dim, dim_in, dim_out]) (\<lambda>context.
     and_then (cumsum context seq_dim) (\<lambda>cumulative_context.
     let cumulative_context = tdiv cumulative_context (tadd cumulative_k (scalar epsilon)) in
     and_then (einsum [q, cumulative_context] [batch_dim, seq_dim, head_dim, dim_out]) (\<lambda>attn.
     Inr attn))))))))))))"

section \<open>Configuration, decoding context and collaborators\<close>

text \<open>
  \<open>params\<close> is the configuration dictionary. \<open>model_fn\<close> wraps it in
  \<open>defaultdict(lambda: None, params)\<close>, so a key that is absent reads as \<open>None\<close>: a
  field of type \<open>option\<close> is such a key, and \<open>params.get(key, default)\<close> is
  \<open>case_option default\<close>. \<open>flag == True\<close> is \<open>flag = Some True\<close>.
\<close>

text \<open>
  A Python string object: its characters, and whether it is interned. The source tests
  \<open>attention_type is not "none"\<close> (line 332), which compares objects, not characters.
  CPython interns the identifier-like string constants of compiled code, such as that
  literal, and two interned strings of the same characters are one object; a string decoded
  from a configuration file or built at run time is not interned, and is another object
  than the literal whatever its characters. \<open>==\<close> compares the characters.
\<close>

datatype py_str = PyStr (chars: string) (interned: bool)

definition is_not_literal :: "py_str \<Rightarrow> string \<Rightarrow> bool" where
  "is_not_literal s lit = (\<not> (interned s \<and> chars s = lit))"

record params =
  model_name :: "string option"
  n_head :: nat
  n_embd :: nat
  n_vocab :: nat
  n_ctx :: nat
  n_layer :: nat
  attention_types :: "py_str list"
  num_mem_kv :: "nat option"
  local_attention_radius :: "nat option"
  attn_dropout :: real
  res_dropout :: real
  embed_dropout :: real
  mode :: string
  mlp_glu_flag :: "bool option"
  scalenorm :: "bool option"
  rezero_flag :: "bool option"
  moe_layers :: "nat list option"
  moe_params :: "(string \<times> string) list option"
  recompute_grad :: "bool option"
  axial_pos_emb :: "(nat \<times> nat) option"
  no_weight_tie :: "bool option"
  share_parameters :: "bool option"
  scale_by_depth :: "bool option"
  scale_by_in :: "bool option"
  causal :: "bool option"
  padding_id :: "int option"
  z_loss :: "real option"
  num_microbatches :: nat
  train_batch_size :: nat
  tokens_per_mb_per_replica :: "nat option"
  auto_layout :: "bool option"
  auto_layout_and_mesh_shape :: "bool option"

text \<open>Python truthiness of a flag that may be absent.\<close>

definition truthy :: "bool option \<Rightarrow> bool" where
  "truthy b = (b = Some True)"

text \<open>\<open>VariableDType\<close>: master, slice and activation dtype.\<close>

datatype variable_dtype = VariableDType string string string

text \<open>
  The decoding context is mesh-tensorflow's transformer \<open>Context\<close>: the mode, the
  position (a scalar), the states of the previous step and the states recorded in this
  one. \<open>get_states(n)\<close> reads the next \<open>n\<close> old states, after as many as were recorded
  so far; \<open>record_new_states\<close> appends.
\<close>

record incremental_context =
  ctx_mode :: string
  position :: int
  states :: "tensor list"
  new_states :: "tensor list"

definition get_states :: "incremental_context \<Rightarrow> nat \<Rightarrow> tensor list" where
  "get_states ctx n = take n (drop (length (new_states ctx)) (states ctx))"

definition record_new_states ::
  "incremental_context \<Rightarrow> tensor list \<Rightarrow> incremental_context" where
  "record_new_states ctx xs = ctx\<lparr>new_states := new_states ctx @ xs\<rparr>"

text \<open>
  What the source calls and this repository does not define: the variable store (a
  variable's value by scope path and name), and the library layers. They are parameters
  of the model; a scope path is the list of the enclosing \<open>tf.variable_scope\<close> names.
\<close>

type_synonym scope = "string list"

record mtf_env =
  variable :: "scope \<Rightarrow> string \<Rightarrow> coords \<Rightarrow> real"
  dropout :: "string \<Rightarrow> real \<Rightarrow> tensor \<Rightarrow> tensor"
  dense :: "scope \<Rightarrow> string \<Rightarrow> real \<Rightarrow> tensor \<Rightarrow> dimension \<Rightarrow> dimension \<Rightarrow> tensor"
  compute_q :: "scope \<Rightarrow> tensor \<Rightarrow> tensor"
  compute_k :: "scope \<Rightarrow> tensor \<Rightarrow> tensor"
  compute_v :: "scope \<Rightarrow> tensor \<Rightarrow> tensor"
  compute_output :: "scope \<Rightarrow> tensor \<Rightarrow> dimension list \<Rightarrow> tensor"
  local_attention_1d ::
    "tensor \<Rightarrow> tensor \<Rightarrow> tensor \<Rightarrow> dimension \<Rightarrow> dimension \<Rightarrow> dimension \<Rightarrow> nat \<Rightarrow> tensor"
  attention ::
    "tensor \<Rightarrow> tensor \<Rightarrow> tensor \<Rightarrow> dimension \<Rightarrow> dimension \<Rightarrow> dimension \<Rightarrow> tensor option \<Rightarrow> real
      \<Rightarrow> tensor"
  transformer_moe_layer_v1 ::
    "scope \<Rightarrow> tensor \<Rightarrow> dimension \<Rightarrow> (string \<times> string) list \<Rightarrow> bool \<Rightarrow> tensor \<times> tensor"
  softmax_cross_entropy_with_logits :: "tensor \<Rightarrow> tensor \<Rightarrow> dimension \<Rightarrow> real \<Rightarrow> tensor"

definition get_variable :: "mtf_env \<Rightarrow> scope \<Rightarrow> string \<Rightarrow> dimension list \<Rightarrow> tensor" where
  "get_variable env vs name shp = \<lparr>shape = shp, val = variable env vs name\<rparr>"

section \<open>Layers of \<open>gpt2.py\<close>\<close>

definition exists :: "'a option \<Rightarrow> bool" where
  "exists x = (x \<noteq> None)"

definition identity :: "tensor \<Rightarrow> tensor" where
  "identity x = x"

definition is_incremental_inference :: "incremental_context option \<Rightarrow> bool" where
  "is_incremental_inference ctx =
     (case ctx of None \<Rightarrow> False | Some c \<Rightarrow> ctx_mode c = ''incremental'')"

definition norm_t :: "tensor \<Rightarrow> dimension \<Rightarrow> real \<Rightarrow> tensor" where
  "norm_t x axis epsilon =
     (let x = tsub x (reduce_mean x axis);
          s = reduce_mean (square x) axis
      in tmul x (rsqrt (tadd s (scalar epsilon))))"

definition rezero :: "mtf_env \<Rightarrow> scope \<Rightarrow> tensor \<Rightarrow> string \<Rightarrow> tensor" where
  "rezero env vs x scope =
     (let g = get_variable env (vs @ [scope]) ''g'' [] in tmul x g)"

text \<open>
  \<open>scale_norm\<close> and \<open>layer_norm\<close>: \<open>axis=sentinel\<close> (here \<open>None\<close>) reads the last
  dimension of \<open>x\<close>.
\<close>

definition scale_norm ::
  "mtf_env \<Rightarrow> scope \<Rightarrow> tensor \<Rightarrow> string \<Rightarrow> variable_dtype \<Rightarrow> dimension option \<Rightarrow> real
    \<Rightarrow> tensor result" where
  "scale_norm env vs x scope variable_dtype axis epsilon =
     and_then (case axis of None \<Rightarrow> shape_last x | Some a \<Rightarrow> Inr a) (\<lambda>axis.
       let g = get_variable env (vs @ [scope]) ''g'' [];
           x = norm_t x axis epsilon;
           x = tmul x g
       in Inr x)"

definition layer_norm ::
  "mtf_env \<Rightarrow> scope \<Rightarrow> tensor \<Rightarrow> string \<Rightarrow> variable_dtype \<Rightarrow> dimension option \<Rightarrow> real
    \<Rightarrow> tensor result" where
  "layer_norm env vs x scope variable_dtype axis epsilon =
     and_then (case axis of None \<Rightarrow> shape_last x | Some a \<Rightarrow> Inr a) (\<lambda>axis.
     and_then (shape_last x) (\<lambda>n_state.
       let g = get_variable env (vs @ [scope]) ''g'' [n_state];
           b = get_variable env (vs @ [scope]) ''b'' [n_state];
           x = norm_t x axis epsilon;
           x = tadd (tmul x g) b
       in Inr x))"

text \<open>
  \<open>linear(x, scope, nf, *, w_init_stdev=0.02, variable_dtype, params=None, scale=False)\<close>:
  \<open>variable_dtype\<close> is keyword-only and has no default, so a call that does not pass
  it raises \<open>TypeError\<close> before the body runs. The model's argument is \<open>None\<close> for
  such a call and \<open>Some dt\<close> otherwise.
\<close>

definition linear_layer ::
  "mtf_env \<Rightarrow> scope \<Rightarrow> tensor \<Rightarrow> string \<Rightarrow> dimension \<Rightarrow> real \<Rightarrow> variable_dtype option \<Rightarrow> params
    \<Rightarrow> bool \<Rightarrow> tensor result" where
  "linear_layer env vs x scope nf w_init_stdev variable_dtype params scale =
     (case variable_dtype of
        None \<Rightarrow> Inl TypeError
      | Some dt \<Rightarrow>
          and_then
            (if truthy (scale_by_depth params) \<and> scale
             then (if n_layer params = 0 then Inl ZeroDivisionError
                   else Inr (w_init_stdev * (1 / sqrt (real (n_layer params)))))
             else Inr w_init_stdev) (\<lambda>w_init_stdev.
          and_then
            (if truthy (scale_by_in params)
             then and_then (shape_last x) (\<lambda>d.
                    if dim_size d = 0 then Inl ZeroDivisionError
                    else Inr (w_init_stdev * (1 / sqrt (real (dim_size d)))))
             else Inr w_init_stdev) (\<lambda>w_init_stdev.
          and_then (shape_last x) (\<lambda>reduced.
            Inr (dense env (vs @ [''conv1d_main'']) scope w_init_stdev x nf reduced)))))"

definition mlp ::
  "mtf_env \<Rightarrow> scope \<Rightarrow> tensor \<Rightarrow> string \<Rightarrow> dimension \<Rightarrow> variable_dtype \<Rightarrow> params \<Rightarrow> tensor result"
  where
  "mlp env vs x scope n_state variable_dtype params =
     and_then (shape_last x) (\<lambda>nx.
     and_then (linear_layer env (vs @ [scope]) x ''c_fc'' n_state 0.02 (Some variable_dtype)
                 params False) (\<lambda>h.
     let h = gelu h in
     and_then (linear_layer env (vs @ [scope]) h ''c_proj'' nx 0.02 (Some variable_dtype)
                 params True) (\<lambda>h2.
     let h2 = (if mode params = ''train'' \<and> res_dropout params > 0
               then dropout env ''mlp_dropout'' (res_dropout params) h2 else h2)
     in Inr h2)))"

text \<open>
  \<open>mlp_glu\<close>: its first call is \<open>linear(x, 'c_fc', n_state, params=params)\<close>, without
  \<open>variable_dtype\<close>.
\<close>

definition mlp_glu ::
  "mtf_env \<Rightarrow> scope \<Rightarrow> tensor \<Rightarrow> string \<Rightarrow> dimension \<Rightarrow> variable_dtype \<Rightarrow> params \<Rightarrow> tensor result"
  where
  "mlp_glu env vs x scope n_state variable_dtype params =
     and_then (shape_last x) (\<lambda>nx.
     and_then (linear_layer env (vs @ [scope]) x ''c_fc'' n_state 0.02 None params False) (\<lambda>h.
     and_then (shape_last h) (\<lambda>hd.
     and_then (split_dim h hd) (\<lambda>(h, gate).
     let h = tmul h (gelu gate) in
     and_then (linear_layer env (vs @ [scope]) h ''c_proj'' nx 0.02 (Some variable_dtype)
                 params True) (\<lambda>h2.
     let h2 = (if mode params = ''train'' \<and> res_dropout params > 0
               then dropout env ''mlp_dropout'' (res_dropout params) h2 else h2)
     in Inr h2)))))"

section \<open>The attention layer\<close>

text \<open>
  \<open>context.position - 1\<close> as a scalar tensor, when
  \<open>is_incremental_inference(context)\<close>; \<open>None\<close> otherwise.
\<close>

definition incremental_position :: "incremental_context option \<Rightarrow> tensor option" where
  "incremental_position ctx =
     (case ctx of
        None \<Rightarrow> None
      | Some c \<Rightarrow> if is_incremental_inference ctx
                  then Some (scalar (of_int (position c - 1))) else None)"

text \<open>
  Lines 160 to 173 of \<open>attn\<close>: the projections of \<open>x\<close>; in incremental mode the
  cached keys and values with the new ones spliced in and the bias dropped
  (\<open>old_k, old_v = context.get_states(2)\<close> raises \<open>ValueError\<close> unless two states are
  there); then the context records the keys and values. The result is the query, the key,
  the value and the bias that the attention variants below receive, and the context.
\<close>

definition attn_inputs ::
  "mtf_env \<Rightarrow> scope \<Rightarrow> tensor \<Rightarrow> tensor option \<Rightarrow> dimension \<Rightarrow> incremental_context option
    \<Rightarrow> (tensor \<times> tensor \<times> tensor \<times> tensor option \<times> incremental_context option) result"
  where
  "attn_inputs env vs x bias dim_seq ctx =
     (let q = compute_q env vs x;
          k = compute_k env vs x;
          v = compute_v env vs x
      in and_then
           (case ctx of
              None \<Rightarrow> Inr (k, v, bias)
            | Some c \<Rightarrow>
                (case incremental_position ctx of
                   None \<Rightarrow> Inr (k, v, bias)
                 | Some pos \<Rightarrow>
                     (let one_hot = one_hot pos dim_seq;
                          inv_one_hot = tsub (scalar 1) one_hot
                      in case get_states c 2 of
                           [old_k, old_v] \<Rightarrow>
                             Inr (tadd (tmul old_k inv_one_hot) (tmul k one_hot),
                                  tadd (tmul old_v inv_one_hot) (tmul v one_hot),
                                  None)
                         | _ \<Rightarrow> Inl ValueError)))
           (\<lambda>(k, v, bias).
              Inr (q, k, v, bias,
                   (case ctx of
                      None \<Rightarrow> None
                    | Some c \<Rightarrow> Some (record_new_states c [k, v])))))"

text \<open>
  Lines 224 to 250: the learned memory keys and values put before the keys and values
  of the sequence, when \<open>num_mem_kv > 0\<close>.
\<close>

definition prepend_mem_kv ::
  "mtf_env \<Rightarrow> scope \<Rightarrow> tensor \<Rightarrow> tensor \<Rightarrow> nat \<Rightarrow> dimension \<Rightarrow> dimension
    \<Rightarrow> (tensor \<times> tensor) result" where
  "prepend_mem_kv env vs k v n_mem_kv dim_batch dim_heads =
     (let dim_mem_kv = (''mem_kv_sequence'', n_mem_kv) in
      and_then (shape_last k) (\<lambda>emb_dim.
        if dim_size emb_dim = 0 then Inl ZeroDivisionError
        else
          (let mem_k = get_variable env (vs @ [''memory_key_values'']) ''mem_k''
                         [dim_mem_kv, dim_heads, emb_dim];
               mem_v = get_variable env (vs @ [''memory_key_values'']) ''mem_v''
                         [dim_mem_kv, dim_heads, emb_dim];
               mem_k = broadcast mem_k [dim_batch, dim_mem_kv, dim_heads, emb_dim];
               mem_v = broadcast mem_v [dim_batch, dim_mem_kv, dim_heads, emb_dim]
           in and_then (rename_dimension mem_k ''mem_kv_sequence'' ''sequence'') (\<lambda>mem_k.
              and_then (rename_dimension mem_v ''mem_kv_sequence'' ''sequence'') (\<lambda>mem_v.
              and_then (concat_dim mem_k k ''sequence'') (\<lambda>k.
              and_then (concat_dim mem_v v ''sequence'') (\<lambda>v.
              Inr (k, v))))))))"

text \<open>\<open>xs[i]\<close> on a list: \<open>IndexError\<close> out of range.\<close>

definition list_get :: "'a list \<Rightarrow> nat \<Rightarrow> 'a result" where
  "list_get xs i = (if i < length xs then Inr (xs ! i) else Inl IndexError)"

text \<open>
  Lines 179 to 270 of \<open>attn\<close>: the attention variant of the layer, applied to the
  query, key, value and bias of \<open>attn_inputs\<close>. The variants are chosen with \<open>==\<close>,
  by the characters of the attention type.
\<close>

definition attention_variant ::
  "mtf_env \<Rightarrow> scope \<Rightarrow> params \<Rightarrow> string \<Rightarrow> tensor \<Rightarrow> tensor \<Rightarrow> tensor \<Rightarrow> tensor option
    \<Rightarrow> incremental_context option \<Rightarrow> dimension \<Rightarrow> dimension \<Rightarrow> dimension \<Rightarrow> dimension
    \<Rightarrow> dimension \<Rightarrow> tensor result" where
  "attention_variant env vs params attention_type q k v bias ctx dim_batch dim_heads dim_kv
      dim_seq memory_length_dim =
     (let n_mem_kv = (case num_mem_kv params of None \<Rightarrow> 0 | Some n \<Rightarrow> n);
          use_num_mem_kv = (n_mem_kv > 0)
      in if attention_type = ''local'' then
           (let radius = (case local_attention_radius params of None \<Rightarrow> 256 | Some r \<Rightarrow> r);
                q = (case incremental_position ctx of
                       None \<Rightarrow> q
                     | Some pos \<Rightarrow> tmul q (one_hot pos dim_seq))
            in and_then (shape_at k 1) (\<lambda>length_dim.
                 let a = local_attention_1d env q k v length_dim dim_kv dim_kv radius
                 in Inr (case incremental_position ctx of
                           None \<Rightarrow> a
                         | Some pos \<Rightarrow> gather a pos dim_seq)))
         else if attention_type = ''global'' then
           and_then
             (case bias of
                None \<Rightarrow> Inr None
              | Some b \<Rightarrow>
                  if length (shape b) < 2 then Inl IndexError
                  else Inr (Some (broadcast b
                         [dim_batch, dim_heads, shape b ! (length (shape b) - 2),
                          last (shape b)])))
             (\<lambda>broadcasted_bias.
           and_then
             (if use_num_mem_kv
              then prepend_mem_kv env vs k v n_mem_kv dim_batch dim_heads
              else Inr (k, v))
             (\<lambda>(k, v).
           and_then (shape_at k 1) (\<lambda>k1.
           and_then (replace_dimensions k k1 memory_length_dim) (\<lambda>k.
           and_then (shape_at v 1) (\<lambda>v1.
           and_then (replace_dimensions v v1 memory_length_dim) (\<lambda>v.
             let attn_dropout_rate =
                   (if mode params = ''train'' then attn_dropout params else 0)
             in Inr (attention env q k v memory_length_dim dim_kv dim_kv
                       broadcasted_bias attn_dropout_rate)))))))
         else if attention_type = ''linear'' then
           linear_attention q k v (1 / 1000000)
         else Inl (NotImplementedError (''Unknown attention type '' @ attention_type @ ''!'')))"

text \<open>
  \<open>attn\<close>. \<open>x_shape, dim_batch, *_, dim_embd, mesh = x.shape, *x.shape, x.mesh\<close>
  needs two dimensions in \<open>x\<close> (\<open>ValueError\<close> otherwise); the assertion on
  \<open>n_state.size % params["n_head"]\<close> divides by \<open>n_head\<close>. The attention type is
  read again from \<open>params\<close> by the layer number, after the context has recorded the
  states.
\<close>

definition attn ::
  "mtf_env \<Rightarrow> scope \<Rightarrow> tensor \<Rightarrow> string \<Rightarrow> dimension \<Rightarrow> py_str \<Rightarrow> nat \<Rightarrow> params \<Rightarrow> tensor option
    \<Rightarrow> dimension \<Rightarrow> dimension \<Rightarrow> variable_dtype \<Rightarrow> incremental_context option
    \<Rightarrow> (tensor \<times> incremental_context option) result" where
  "attn env vs x scope n_state attention_type layer_num params bias dim_seq memory_length_dim
      variable_dtype ctx =
     (if length (shape x) < 2 then Inl ValueError
      else if n_head params = 0 then Inl ZeroDivisionError
      else if dim_size n_state mod n_head params \<noteq> 0 then Inl AssertionError
      else
        (let x_shape = shape x;
             dim_batch = hd (shape x);
             dim_embd = last (shape x);
             dim_heads = (''heads'', n_head params);
             dim_kv = (''features_per_head'', n_embd params div n_head params)
         in and_then (attn_inputs env (vs @ [scope]) x bias dim_seq ctx)
              (\<lambda>(q, k, v, bias, ctx).
            and_then (list_get (attention_types params) layer_num) (\<lambda>attention_type.
            and_then (attention_variant env (vs @ [scope, ''attention'']) params
                        (chars attention_type)
                        q k v bias ctx dim_batch dim_heads dim_kv dim_seq memory_length_dim)
              (\<lambda>a.
                 let a = compute_output env (vs @ [scope, ''compute_output'']) a x_shape;
                     b = get_variable env (vs @ [scope, ''compute_output_bias'']) ''o_b''
                           [dim_embd];
                     a = tadd a b
                 in Inr (a, ctx))))))"

section \<open>The transformer block\<close>

text \<open>
  \<open>block\<close> returns the closure \<open>fn\<close>; the model is \<open>fn\<close> applied, the context
  passed along. \<open>prenorm\<close> and \<open>pre_residual_fn\<close> are the two functions \<open>fn\<close>
  picks from the configuration.
\<close>

definition prenorm ::
  "mtf_env \<Rightarrow> scope \<Rightarrow> params \<Rightarrow> tensor \<Rightarrow> string \<Rightarrow> variable_dtype \<Rightarrow> tensor result" where
  "prenorm env vs params x scope variable_dtype =
     (let use_scale_norm = truthy (scalenorm params);
          use_rezero = truthy (rezero_flag params)
      in if use_rezero then Inr (identity x)
         else if use_scale_norm then scale_norm env vs x scope variable_dtype None (1 / 100000)
         else layer_norm env vs x scope variable_dtype None (1 / 100000))"

definition pre_residual_fn :: "mtf_env \<Rightarrow> scope \<Rightarrow> params \<Rightarrow> tensor \<Rightarrow> string \<Rightarrow> tensor" where
  "pre_residual_fn env vs params x scope =
     (let use_rezero = truthy (rezero_flag params)
      in if use_rezero then rezero env vs x scope else identity x)"

text \<open>
  Lines 330 to 340 of \<open>fn\<close>: the attention sub-layer and its residual add; \<open>nx\<close>
  is the last dimension of the block's input. The test is
  \<open>attention_type is not "none"\<close>, on objects: only a configured type that is the very
  object of the literal skips attention; any other string, also one whose characters are
  "none", goes to \<open>attn\<close>. The result is the value that the feed-forward sub-layer
  receives, and the context.
\<close>

definition attention_sublayer ::
  "mtf_env \<Rightarrow> scope \<Rightarrow> params \<Rightarrow> nat \<Rightarrow> tensor option \<Rightarrow> dimension \<Rightarrow> dimension
    \<Rightarrow> variable_dtype \<Rightarrow> incremental_context option \<Rightarrow> dimension \<Rightarrow> tensor
    \<Rightarrow> (tensor \<times> incremental_context option) result" where
  "attention_sublayer env vs params layer_num bias sequence_dim memory_length_dim
      variable_dtype ctx nx x =
     and_then (list_get (attention_types params) layer_num) (\<lambda>attention_type.
     and_then
       (if is_not_literal attention_type ''none'' then
          and_then (prenorm env vs params x ''norm_1'' variable_dtype) (\<lambda>res_x.
            attn env vs res_x ''attn'' nx attention_type layer_num params bias sequence_dim
              memory_length_dim variable_dtype ctx)
        else Inr (x, ctx))
       (\<lambda>(a, ctx).
          Inr (tadd x (pre_residual_fn env vs params a ''norm_rezero_1''), ctx)))"

text \<open>Lines 342 to 371 of \<open>fn\<close>: the feed-forward sub-layer and its residual add.\<close>

definition feed_forward_sublayer ::
  "mtf_env \<Rightarrow> scope \<Rightarrow> params \<Rightarrow> nat \<Rightarrow> variable_dtype \<Rightarrow> dimension \<Rightarrow> tensor
    \<Rightarrow> (tensor \<times> tensor) result" where
  "feed_forward_sublayer env vs params layer_num variable_dtype nx x =
     (let use_mlp_glu = truthy (mlp_glu_flag params);
          use_moe = (case moe_layers params of None \<Rightarrow> False | Some ls \<Rightarrow> layer_num \<in> set ls)
      in and_then (prenorm env vs params x ''norm_2'' variable_dtype) (\<lambda>res_x.
         and_then
           (if use_moe then
              (case moe_params params of
                 None \<Rightarrow> Inl AttributeError
               | Some hparams \<Rightarrow>
                   and_then (shape_last x) (\<lambda>x_last.
                     Inr (transformer_moe_layer_v1 env vs res_x x_last hparams
                            (mode params = ''train''))))
            else
              (let intermediate_size = dim_size nx * 4 * (if \<not> use_mlp_glu then 1 else 2);
                   dim_intermediate_expanded = (''intermediate_expanded'', intermediate_size)
               in and_then
                    (if use_mlp_glu
                     then mlp_glu env vs res_x ''mlp'' dim_intermediate_expanded variable_dtype
                            params
                     else mlp env vs res_x ''mlp'' dim_intermediate_expanded variable_dtype
                            params)
                    (\<lambda>m. Inr (m, scalar 0))))
           (\<lambda>(m, aux_loss).
              Inr (tadd x (pre_residual_fn env vs params m ''norm_rezero_2''), aux_loss))))"

text \<open>\<open>fn\<close>, lines 317 to 371: \<open>nx = x.shape[-1]\<close>, then the two sub-layers.\<close>

definition block ::
  "mtf_env \<Rightarrow> scope \<Rightarrow> params \<Rightarrow> string \<Rightarrow> nat \<Rightarrow> tensor option \<Rightarrow> dimension \<Rightarrow> dimension
    \<Rightarrow> variable_dtype \<Rightarrow> incremental_context option \<Rightarrow> tensor
    \<Rightarrow> (tensor \<times> tensor \<times> incremental_context option) result" where
  "block env vs params scope layer_num bias sequence_dim memory_length_dim variable_dtype ctx x =
     and_then (shape_last x) (\<lambda>nx.
     and_then (attention_sublayer env (vs @ [scope]) params layer_num bias sequence_dim
                 memory_length_dim variable_dtype ctx nx x) (\<lambda>(x, ctx).
     and_then (feed_forward_sublayer env (vs @ [scope]) params layer_num variable_dtype nx x)
       (\<lambda>(x, aux_loss). Inr (x, aux_loss, ctx))))"

section \<open>The model\<close>

record other_features =
  attn_bias :: tensor
  embd_dim :: dimension
  vocab_dim :: dimension
  embed_sequence_dim :: dimension
  memory_length_dim_of :: dimension

text \<open>\<open>str(layer)\<close>: the decimal digits.\<close>

fun str_nat :: "nat \<Rightarrow> string" where
  "str_nat n =
     (if n < 10 then [char_of (48 + n)] else str_nat (n div 10) @ [char_of (48 + n mod 10)])"

declare str_nat.simps [simp del]

definition dict_get :: "(string \<rightharpoonup> 'a) \<Rightarrow> string \<Rightarrow> 'a result" where
  "dict_get d key = (case d key of None \<Rightarrow> Inl KeyError | Some v \<Rightarrow> Inr v)"

text \<open>
  A variable that is not trainable and is never assigned holds its initial value:
  \<open>aux_losses\<close> is created with \<open>constant_initializer(0)\<close> and \<open>trainable=False\<close>,
  and \<open>aux_losses += loss\<close> builds a new tensor.
\<close>

definition constant_variable :: "real \<Rightarrow> dimension list \<Rightarrow> tensor" where
  "constant_variable r shp = \<lparr>shape = shp, val = (\<lambda>c. r)\<rparr>"

text \<open>
  Lines 389 to 448 of \<open>model\<close>: the inputs, the position and token embeddings and
  their sum. The result is the first two dimensions of the input, the token embedding
  \<open>wte\<close> and the hidden state \<open>h\<close>.
\<close>

definition embed ::
  "mtf_env \<Rightarrow> scope \<Rightarrow> (string \<rightharpoonup> tensor) \<Rightarrow> other_features \<Rightarrow> params
    \<Rightarrow> incremental_context option \<Rightarrow> (dimension \<times> dimension \<times> tensor \<times> tensor) result" where
  "embed env vs mtf_features other params ctx =
     (let use_axial_pos_emb = (axial_pos_emb params \<noteq> None) in
      and_then (dict_get mtf_features ''inputs'') (\<lambda>x.
      and_then (shape_at x 0) (\<lambda>batch_dim.
      and_then (shape_at x 1) (\<lambda>sequence_dim.
      and_then
        (case incremental_position ctx of
           None \<Rightarrow> Inr x
         | Some pos \<Rightarrow> reshape (gather x pos sequence_dim) [batch_dim]) (\<lambda>x.
      and_then
        (case axial_pos_emb params of
           None \<Rightarrow> Inr (get_variable env vs ''wpe'' [embed_sequence_dim other, embd_dim other])
         | Some (axial_dim_1, axial_dim_2) \<Rightarrow>
             (let axial_dim = (''axial_dim'', axial_dim_1 * axial_dim_2);
                  dim_axials = [(''axial_dim_0'', axial_dim_1), (''axial_dim_1'', axial_dim_2)];
                  axial_wpe_1 = get_variable env vs ''axial_wpe_1''
                                  [dim_axials ! 0, embd_dim other];
                  axial_wpe_2 = get_variable env vs ''axial_wpe_2''
                                  [dim_axials ! 1, embd_dim other];
                  axial_wpe_1 = broadcast axial_wpe_1
                                  [dim_axials ! 0, dim_axials ! 1, embd_dim other];
                  axial_wpe_2 = broadcast axial_wpe_2
                                  [dim_axials ! 0, dim_axials ! 1, embd_dim other];
                  wpe = tdiv (tadd axial_wpe_1 axial_wpe_2) (scalar 2)
              in reshape wpe [axial_dim, embd_dim other])) (\<lambda>wpe.
      let wte = get_variable env vs ''wte'' [vocab_dim other, embd_dim other];
          dropped = (embed_dropout params > 0 \<and> mode params = ''train'');
          wpe = (if dropped then dropout env ''wpe_dropout'' (embed_dropout params) wpe else wpe);
          wte = (if dropped then dropout env ''wte_dropout'' (embed_dropout params) wte else wte);
          h = gather wte x (vocab_dim other);
          position_indices = (case incremental_position ctx of
                                None \<Rightarrow> range_t sequence_dim
                              | Some pos \<Rightarrow> pos)
      in and_then (shape_at wpe 0) (\<lambda>wpe0.
           Inr (batch_dim, sequence_dim, wte, tadd h (gather wpe position_indices wpe0)))))))))"

text \<open>
  Lines 460 to 472: the loop over the layers. \<open>mtf.recompute_grad(block_fn, [h])\<close>
  computes \<open>block_fn(h)\<close> in the forward pass.
\<close>

definition recompute_grad_call :: "(tensor \<Rightarrow> 'a result) \<Rightarrow> tensor \<Rightarrow> 'a result" where
  "recompute_grad_call block_fn h = block_fn h"

fun layers ::
  "mtf_env \<Rightarrow> scope \<Rightarrow> other_features \<Rightarrow> params \<Rightarrow> dimension \<Rightarrow> variable_dtype \<Rightarrow> nat list
    \<Rightarrow> tensor \<Rightarrow> tensor \<Rightarrow> incremental_context option
    \<Rightarrow> (tensor \<times> tensor \<times> incremental_context option) result" where
  "layers env vs other params sequence_dim variable_dtype [] h aux_losses ctx =
     Inr (h, aux_losses, ctx)"
| "layers env vs other params sequence_dim variable_dtype (layer # rest) h aux_losses ctx =
     (let share = (share_parameters params = Some True);
          block_scope = ''h'' @ (if \<not> share then str_nat layer else []);
          block_fn = block env vs params block_scope layer (Some (attn_bias other)) sequence_dim
                       (memory_length_dim_of other) variable_dtype ctx
      in and_then
           (if \<not> truthy (recompute_grad params) then block_fn h
            else recompute_grad_call block_fn h)
           (\<lambda>(h, loss, ctx).
              layers env vs other params sequence_dim variable_dtype rest h
                (tadd aux_losses loss) ctx))"

text \<open>Lines 476 to 485: the logits.\<close>

definition final_logits ::
  "mtf_env \<Rightarrow> scope \<Rightarrow> other_features \<Rightarrow> params \<Rightarrow> variable_dtype \<Rightarrow> dimension \<Rightarrow> dimension
    \<Rightarrow> tensor \<Rightarrow> tensor \<Rightarrow> incremental_context option \<Rightarrow> tensor result" where
  "final_logits env vs other params variable_dtype batch_dim sequence_dim wte h ctx =
     (if truthy (no_weight_tie params)
      then linear_layer env (vs @ [''wte_final_linear'']) h ''linear_out'' (vocab_dim other) 0.02
             (Some variable_dtype) params False
      else and_then (layer_norm env vs h ''ln_f'' variable_dtype None (1 / 100000)) (\<lambda>h.
             let seq_dim = (if \<not> is_incremental_inference ctx then sequence_dim
                            else (''sequence'', 1))
             in einsum [h, wte] [batch_dim, seq_dim, vocab_dim other]))"

text \<open>
  Lines 487 to 513: the loss. \<open>loss /= params["num_microbatches"]\<close> multiplies by
  \<open>1.0 / num_microbatches\<close>, which raises \<open>ZeroDivisionError\<close> at zero. Outside train
  mode the loss and the per-position loss are \<open>None\<close>.
\<close>

definition model_loss ::
  "mtf_env \<Rightarrow> (string \<rightharpoonup> tensor) \<Rightarrow> params \<Rightarrow> tensor \<Rightarrow> tensor
    \<Rightarrow> (tensor option \<times> tensor option) result" where
  "model_loss env mtf_features params logits aux_losses =
     (if mode params = ''train'' then
        and_then (dict_get mtf_features ''labels'') (\<lambda>labels.
        let z = (case z_loss params of None \<Rightarrow> 1 / 10000 | Some z \<Rightarrow> z) in
        and_then (shape_last logits) (\<lambda>logits_vocab.
        let loss_batch = softmax_cross_entropy_with_logits env logits labels logits_vocab z;
            loss_batch =
              (if \<not> truthy (causal params) then
                 (let pad = (case padding_id params of None \<Rightarrow> 0 | Some i \<Rightarrow> i)
                  in where_t (not_equal labels (scalar (of_int pad))) loss_batch
                       (zeros_like loss_batch))
               else loss_batch);
            loss = reduce_mean_all loss_batch;
            loss = tadd loss aux_losses
        in if num_microbatches params = 0 then Inl ZeroDivisionError
           else Inr (Some (tmul loss (scalar (1 / real (num_microbatches params)))),
                     Some loss_batch)))
      else Inr (None, None))"

text \<open>
  \<open>model(mtf_features, other_features, params, mesh, variable_dtype, context=None)\<close>:
  \<open>variable_dtype\<close> has no default, so a call with four arguments raises
  \<open>TypeError\<close>; the model's argument is \<open>None\<close> for such a call. The result is the
  logits, the loss, the per-position loss, and the context as the layers left it.
\<close>

definition model ::
  "mtf_env \<Rightarrow> scope \<Rightarrow> (string \<rightharpoonup> tensor) \<Rightarrow> other_features \<Rightarrow> params \<Rightarrow> variable_dtype option
    \<Rightarrow> incremental_context option
    \<Rightarrow> (tensor \<times> tensor option \<times> tensor option \<times> incremental_context option) result" where
  "model env vs mtf_features other params variable_dtype ctx =
     (case variable_dtype of
        None \<Rightarrow> Inl TypeError
      | Some dt \<Rightarrow>
          and_then (embed env vs mtf_features other params ctx)
            (\<lambda>(batch_dim, sequence_dim, wte, h).
          let aux_losses = constant_variable 0 [] in
          and_then (layers env vs other params sequence_dim dt [0..<n_layer params] h
                      aux_losses ctx) (\<lambda>(h, aux_losses, ctx).
          and_then (final_logits env vs other params dt batch_dim sequence_dim wte h ctx)
            (\<lambda>logits.
          and_then (model_loss env mtf_features params logits aux_losses) (\<lambda>(loss, loss_batch).
            Inr (logits, loss, loss_batch, ctx))))))"

section \<open>\<open>model_fn\<close>\<close>

datatype mode_key = TRAIN | EVAL | PREDICT

text \<open>
  What \<open>model_fn\<close> calls and \<open>src/\<close> does not hold: \<open>biasmask_attn_weights\<close>
  (\<open>models/utils\<close>), \<open>sample_autoregressive\<close> (\<open>sample\<close>), \<open>get_optimizer\<close>
  (\<open>optimizers\<close>), and the library's \<open>clean_decodes\<close>,
  \<open>serialize_num_microbatches\<close> and \<open>serialize_training_step\<close>. They are parameters.
  The mesh, the summaries, the hooks and the savers place and report the computation and
  are left out.
\<close>

type_synonym output_dict = "tensor \<times> tensor option \<times> tensor option"

record driver_env =
  biasmask_attn_weights :: "dimension \<Rightarrow> dimension \<Rightarrow> tensor"
  sample_autoregressive :: "tensor \<Rightarrow> other_features \<Rightarrow> params \<Rightarrow> tensor result"
  clean_decodes :: "tensor \<Rightarrow> tensor"
  serialize_num_microbatches :: "dimension \<Rightarrow> nat \<Rightarrow> nat option \<Rightarrow> nat"
  serialize_training_step ::
    "(string \<rightharpoonup> tensor) \<Rightarrow> ((string \<rightharpoonup> tensor) \<Rightarrow> output_dict option result) \<Rightarrow> dimension \<Rightarrow> nat
      \<Rightarrow> (tensor list \<times> output_dict) result"
  get_optimizer :: "tensor option \<Rightarrow> params \<Rightarrow> tensor list option \<Rightarrow> (tensor \<times> tensor list) result"

record predictions =
  orig_inputs :: tensor
  inputs :: tensor
  outputs :: tensor

record eval_metrics =
  mean_logits :: tensor
  perplexity :: tensor

datatype estimator_spec =
    PredictSpec predictions
  | TrainSpec tensor "tensor list"
  | EvalSpec tensor eval_metrics

text \<open>
  Lines 66 and 67: \<open>batch_size = 1 if mode == PREDICT else params["train_batch_size"]\<close>
  and \<open>batch_dim = mtf.Dimension('batch', batch_size)\<close>.
\<close>

definition batch_dim_of :: "mode_key \<Rightarrow> params \<Rightarrow> dimension" where
  "batch_dim_of mode_k params =
     (let batch_size = (if mode_k = PREDICT then 1 else train_batch_size params)
      in (''batch'', batch_size))"

text \<open>
  Lines 72 to 79: every feature that is not \<open>None\<close> is imported with the shape
  [batch, sequence]. A raw feature is its entries by coordinates.
\<close>

definition import_features ::
  "dimension \<Rightarrow> dimension \<Rightarrow> (coords \<Rightarrow> real) option \<Rightarrow> (coords \<Rightarrow> real) option
    \<Rightarrow> (string \<rightharpoonup> tensor)" where
  "import_features batch_dim length_dim features labels =
     (\<lambda>key. if key = ''inputs''
               then map_option (\<lambda>x. \<lparr>shape = [batch_dim, length_dim], val = x\<rparr>) features
             else if key = ''labels''
               then map_option (\<lambda>x. \<lparr>shape = [batch_dim, length_dim], val = x\<rparr>) labels
             else None)"

text \<open>
  \<open>serialized_fn\<close> (lines 149 to 154) returns the outputs for the model "GPT2" and falls
  off its end (\<open>None\<close>) for any other. Here and at line 167 \<open>gpt2.model\<close> is called
  with four arguments.
\<close>

definition serialized_fn ::
  "mtf_env \<Rightarrow> other_features \<Rightarrow> params \<Rightarrow> (string \<rightharpoonup> tensor) \<Rightarrow> output_dict option result" where
  "serialized_fn env other params mtf_features =
     (if model_name params = Some ''GPT2''
      then and_then (model env [''gpt2''] mtf_features other params None None)
             (\<lambda>(logits, loss, loss_batch, ctx). Inr (Some (logits, loss, loss_batch)))
      else Inr None)"

text \<open>
  \<open>tf.metrics.mean\<close> of one evaluation batch is the mean of the entries; the exported
  tensors of \<open>None\<close> do not exist (\<open>AttributeError\<close>).
\<close>

definition metrics_mean :: "tensor \<Rightarrow> tensor" where
  "metrics_mean x = reduce_mean_all x"

definition export_to_tf_tensor :: "tensor option \<Rightarrow> tensor result" where
  "export_to_tf_tensor x = (case x of None \<Rightarrow> Inl AttributeError | Some t \<Rightarrow> Inr t)"

definition anonymize :: "tensor option \<Rightarrow> tensor option result" where
  "anonymize x = (case x of None \<Rightarrow> Inl AttributeError | Some t \<Rightarrow> Inr (Some t))"

text \<open>\<open>_perplexity\<close> and \<open>_metric_fn\<close> (lines 262 to 271).\<close>

definition perplexity_fn :: "params \<Rightarrow> tensor \<Rightarrow> tensor" where
  "perplexity_fn params tf_loss_batch =
     (let loss = reduce_mean_all tf_loss_batch;
          loss = tdiv loss (scalar (real (num_microbatches params)));
          perplexity = unary_op exp loss
      in metrics_mean perplexity)"

definition metric_fn :: "params \<Rightarrow> tensor \<Rightarrow> tensor \<Rightarrow> eval_metrics" where
  "metric_fn params tf_logits tf_loss_batch =
     (let mean_logits = metrics_mean tf_logits;
          perp = perplexity_fn params tf_loss_batch
      in \<lparr>mean_logits = mean_logits, perplexity = perp\<rparr>)"

definition invalid_model_message :: "params \<Rightarrow> string" where
  "invalid_model_message params =
     (case model_name params of None \<Rightarrow> ''None'' | Some m \<Rightarrow> m)
       @ '' is not a valid model - please select from GPT2''"

definition model_fn ::
  "mtf_env \<Rightarrow> driver_env \<Rightarrow> (coords \<Rightarrow> real) option \<Rightarrow> (coords \<Rightarrow> real) option \<Rightarrow> mode_key
    \<Rightarrow> params \<Rightarrow> estimator_spec result" where
  "model_fn env denv features labels mode_k params =
     (let batch_dim = batch_dim_of mode_k params;
          length_dim = (''sequence'', n_ctx params);
          mtf_features = import_features batch_dim length_dim features labels;
          memory_length_dim = (''memory_length'', dim_size length_dim);
          other = \<lparr>attn_bias = biasmask_attn_weights denv length_dim memory_length_dim,
                   embd_dim = (''embd'', n_embd params),
                   vocab_dim = (''vocab'', n_vocab params),
                   embed_sequence_dim = (''embed_sequence'', n_ctx params),
                   memory_length_dim_of = memory_length_dim\<rparr>
      in if mode_k = PREDICT then
           and_then (dict_get mtf_features ''inputs'') (\<lambda>inputs.
           and_then (sample_autoregressive denv inputs other params) (\<lambda>mtf_samples.
             Inr (PredictSpec \<lparr>orig_inputs = inputs,
                               inputs = clean_decodes denv inputs,
                               outputs = clean_decodes denv mtf_samples\<rparr>)))
         else
           (let nm = serialize_num_microbatches denv batch_dim (n_ctx params)
                       (tokens_per_mb_per_replica params);
                params = params\<lparr>num_microbatches := nm\<rparr>
            in and_then
                 (if nm > 1 then
                    and_then (serialize_training_step denv mtf_features
                                (serialized_fn env other params) batch_dim nm)
                      (\<lambda>(var_grads, logits, loss, loss_batch).
                         Inr (Some var_grads, logits, loss, loss_batch))
                  else if model_name params = Some ''GPT2'' then
                    and_then (model env [''gpt2''] mtf_features other params None None)
                      (\<lambda>(logits, loss, loss_batch, ctx). Inr (None, logits, loss, loss_batch))
                  else Inl (Exception (invalid_model_message params)))
                 (\<lambda>(var_grads, logits, loss, loss_batch).
                    if truthy (auto_layout params) then Inl SystemExit
                    else if truthy (auto_layout_and_mesh_shape params) then Inl SystemExit
                    else if mode_k = TRAIN then
                      and_then (get_optimizer denv loss params var_grads) (\<lambda>(lr, update_ops).
                      and_then (export_to_tf_tensor loss) (\<lambda>tf_loss.
                      and_then (export_to_tf_tensor loss_batch) (\<lambda>tf_loss_batch_log.
                        Inr (TrainSpec tf_loss update_ops))))
                    else
                      and_then (anonymize (Some logits)) (\<lambda>fully_replicated_logits.
                      and_then (anonymize loss_batch) (\<lambda>fully_replicated_loss_batch.
                      and_then (export_to_tf_tensor loss) (\<lambda>tf_loss.
                      and_then (export_to_tf_tensor loss_batch) (\<lambda>tf_loss_batch_log.
                      and_then (export_to_tf_tensor fully_replicated_logits) (\<lambda>tf_logits.
                      and_then (export_to_tf_tensor fully_replicated_loss_batch)
                        (\<lambda>tf_loss_batch.
                        Inr (EvalSpec tf_loss
                               (metric_fn params tf_logits tf_loss_batch)))))))))))"

section \<open>Specification functions\<close>

text \<open>
  The layers of a list that record state: those whose attention type does not read
  "none".
\<close>

definition recording_layers :: "params \<Rightarrow> nat list \<Rightarrow> nat list" where
  "recording_layers params ls =
     filter (\<lambda>l. chars (attention_types params ! l) \<noteq> ''none'') ls"

text \<open>
  The auxiliary loss of every block of the loop, in order: the loop of \<open>layers\<close> run
  again, keeping each block's second result.
\<close>

fun layer_aux_losses ::
  "mtf_env \<Rightarrow> scope \<Rightarrow> other_features \<Rightarrow> params \<Rightarrow> dimension \<Rightarrow> variable_dtype \<Rightarrow> nat list
    \<Rightarrow> tensor \<Rightarrow> incremental_context option \<Rightarrow> tensor list result" where
  "layer_aux_losses env vs other params sequence_dim variable_dtype [] h ctx = Inr []"
| "layer_aux_losses env vs other params sequence_dim variable_dtype (layer # rest) h ctx =
     and_then
       (block env vs params
          (''h'' @ (if share_parameters params \<noteq> Some True then str_nat layer else []))
          layer (Some (attn_bias other)) sequence_dim (memory_length_dim_of other)
          variable_dtype ctx h)
       (\<lambda>(h, loss, ctx).
          and_then (layer_aux_losses env vs other params sequence_dim variable_dtype rest h ctx)
            (\<lambda>losses. Inr (loss # losses)))"

definition valid_attention_types :: "string set" where
  "valid_attention_types = {''global'', ''local'', ''linear'', ''none''}"

section \<open>Test configurations\<close>

text \<open>
  Concrete tensors, collaborators and configurations on which the theorems below are
  instantiated: two layers (attention the literal "none", then "linear"), rezero, the plain
  MLP, an untied output projection, train mode, two microbatches.
\<close>

definition qkv_shape :: "dimension list" where
  "qkv_shape = [(''batch'', 1), (''sequence'', 2), (''heads'', 1), (''features_per_head'', 1)]"

definition ones :: tensor where
  "ones = \<lparr>shape = qkv_shape, val = (\<lambda>c. 1)\<rparr>"

definition late_change :: tensor where
  "late_change = \<lparr>shape = qkv_shape, val = (\<lambda>c. if c ''sequence'' = 0 then 1 else 5)\<rparr>"

definition sevens :: tensor where
  "sevens = \<lparr>shape = [(''batch'', 1), (''sequence'', 2), (''embd'', 2)], val = (\<lambda>c. 7)\<rparr>"

definition tokens0 :: tensor where
  "tokens0 = \<lparr>shape = [(''batch'', 1), (''sequence'', 2)], val = (\<lambda>c. real (c ''sequence''))\<rparr>"

definition second_position :: coords where
  "second_position = (\<lambda>n. 0)(''sequence'' := 1)"

definition zero_feature :: "coords \<Rightarrow> real" where
  "zero_feature = (\<lambda>c. 0)"

definition imported_zero :: tensor where
  "imported_zero = \<lparr>shape = [(''batch'', 1), (''sequence'', 2)], val = zero_feature\<rparr>"

definition env0 :: mtf_env where
  "env0 = \<lparr>variable = (\<lambda>vs name c. 1),
            dropout = (\<lambda>name rate x. x),
            dense = (\<lambda>vs name stdev x nf reduced.
                       \<lparr>shape = butlast (shape x) @ [nf], val = val x\<rparr>),
            compute_q = (\<lambda>vs x. \<lparr>shape = qkv_shape, val = val x\<rparr>),
            compute_k = (\<lambda>vs x. \<lparr>shape = qkv_shape, val = val x\<rparr>),
            compute_v = (\<lambda>vs x. \<lparr>shape = qkv_shape, val = val x\<rparr>),
            compute_output = (\<lambda>vs a shp. \<lparr>shape = shp, val = val a\<rparr>),
            local_attention_1d = (\<lambda>q k v length_dim key_dim value_dim radius. v),
            attention = (\<lambda>q k v memory_length_dim key_dim value_dim bias rate. v),
            transformer_moe_layer_v1 = (\<lambda>vs x d hparams train. (x, scalar 0)),
            softmax_cross_entropy_with_logits =
              (\<lambda>logits targets vocab z. \<lparr>shape = shape targets, val = (\<lambda>c. 3)\<rparr>)\<rparr>"

definition denv0 :: driver_env where
  "denv0 = \<lparr>biasmask_attn_weights = (\<lambda>nd md. \<lparr>shape = [nd, md], val = (\<lambda>c. 0)\<rparr>),
             sample_autoregressive = (\<lambda>inputs other params. Inr inputs),
             clean_decodes = (\<lambda>x. x),
             serialize_num_microbatches =
               (\<lambda>batch_dim n t. case t of None \<Rightarrow> 1 | Some k \<Rightarrow> 2),
             serialize_training_step = (\<lambda>features fn batch_dim n. Inl ValueError),
             get_optimizer = (\<lambda>loss params var_grads. Inl ValueError)\<rparr>"

definition params0 :: params where
  "params0 = \<lparr>model_name = Some ''GPT2'', n_head = 1, n_embd = 2, n_vocab = 4, n_ctx = 2,
               n_layer = 2,
               attention_types = [PyStr ''none'' True, PyStr ''linear'' False],
               num_mem_kv = None,
               local_attention_radius = None, attn_dropout = 0, res_dropout = 0,
               embed_dropout = 0, mode = ''train'', mlp_glu_flag = None, scalenorm = None,
               rezero_flag = Some True, moe_layers = None, moe_params = None,
               recompute_grad = None, axial_pos_emb = None, no_weight_tie = Some True,
               share_parameters = None, scale_by_depth = None, scale_by_in = None,
               causal = Some False, padding_id = None, z_loss = None, num_microbatches = 2,
               train_batch_size = 1, tokens_per_mb_per_replica = None, auto_layout = None,
               auto_layout_and_mesh_shape = None\<rparr>"

definition params_plain :: params where
  "params_plain = params0\<lparr>rezero_flag := None, attention_types := [PyStr ''none'' True]\<rparr>"

definition params_unknown_model :: params where
  "params_unknown_model = params0\<lparr>model_name := Some ''GPT3''\<rparr>"

definition params_unknown_attention :: params where
  "params_unknown_attention =
     params0\<lparr>attention_types := [PyStr ''none'' True, PyStr ''bogus'' False]\<rparr>"

text \<open>A configuration whose only layer reads "none", decoded from a file: not interned.\<close>

definition params_decoded_none :: params where
  "params_decoded_none = params0\<lparr>n_layer := 1, attention_types := [PyStr ''none'' False]\<rparr>"

definition other0 :: other_features where
  "other0 = \<lparr>attn_bias = \<lparr>shape = [(''sequence'', 2), (''memory_length'', 2)],
                           val = (\<lambda>c. 0)\<rparr>,
              embd_dim = (''embd'', 2), vocab_dim = (''vocab'', 4),
              embed_sequence_dim = (''embed_sequence'', 2),
              memory_length_dim_of = (''memory_length'', 2)\<rparr>"

definition features0 :: "string \<rightharpoonup> tensor" where
  "features0 = [''inputs'' \<mapsto> tokens0, ''labels'' \<mapsto> tokens0]"

definition dt0 :: variable_dtype where
  "dt0 = VariableDType ''float32'' ''float32'' ''float32''"

definition ctx0 :: incremental_context where
  "ctx0 = \<lparr>ctx_mode = ''first_part'', position = 0, states = [], new_states = []\<rparr>"


section \<open>Basic facts\<close>

lemma and_then_Inr: "and_then m f = Inr y \<longleftrightarrow> (\<exists>a. m = Inr a \<and> f a = Inr y)"
  by (cases m) (auto simp: and_then_def)

lemma and_then_simps [simp]:
  "and_then (Inl e) f = Inl e"
  "and_then (Inr a) f = f a"
  by (simp_all add: and_then_def)

lemma shape_binary_op [simp]: "shape (binary_op f x y) = union_dims (shape x) (shape y)"
  by (simp add: binary_op_def)

lemma val_binary_op [simp]: "val (binary_op f x y) c = f (val x c) (val y c)"
  by (simp add: binary_op_def)

lemma upt2: "[0..<2] = [0, Suc 0]"
  by (simp add: upt_rec)

lemma str_nat_small: "str_nat 0 = ''0''" "str_nat (Suc 0) = ''1''"
  by code_simp+

lemmas tensor_defs = and_then_def shape_at_def shape_last_def list_get_def dict_get_def
  rename_dimension_def dimension_names_def dim_name_def dim_size_def softmax_def cumsum_def
  einsum_def einsum_dims_def tadd_def tdiv_def tmul_def tsub_def elu_def unary_op_def
  binary_op_def scalar_def union_dims_def gather_def get_variable_def gelu_def identity_def
  range_t_def constant_variable_def

section \<open>The model, decomposed and run\<close>

lemma model_Inr:
  "model env vs mtf_features other params (Some dt) ctx = Inr (logits, loss, loss_batch, ctx')
    \<longleftrightarrow> (\<exists>batch_dim sequence_dim wte h0 h aux_losses.
          embed env vs mtf_features other params ctx = Inr (batch_dim, sequence_dim, wte, h0) \<and>
          layers env vs other params sequence_dim dt [0..<n_layer params] h0
            (constant_variable 0 []) ctx = Inr (h, aux_losses, ctx') \<and>
          final_logits env vs other params dt batch_dim sequence_dim wte h ctx' = Inr logits \<and>
          model_loss env mtf_features params logits aux_losses = Inr (loss, loss_batch))"
  by (auto simp: model_def and_then_Inr Let_def)

lemma model_needs_variable_dtype:
  "model env vs mtf_features other params None ctx = Inl TypeError"
  by (simp add: model_def)

text \<open>
  The model returns on the test configuration, whatever \<open>causal\<close> is: the theorems
  about a run that returns are about runs that exist.
\<close>

lemma model_fixture:
  "\<exists>logits l lb c'. model env0 [] features0 other0 (params0\<lparr>causal := cz\<rparr>) (Some dt0)
      (Some ctx0) = Inr (logits, Some l, Some lb, Some c')"
  by (simp add: model_def embed_def layers.simps block_def attention_sublayer_def
      feed_forward_sublayer_def prenorm_def pre_residual_fn_def rezero_def mlp_def
      linear_layer_def attn_def attn_inputs_def attention_variant_def linear_attention_def
      final_logits_def model_loss_def truthy_def record_new_states_def
      features0_def tokens0_def other0_def params0_def env0_def ctx0_def qkv_shape_def
      incremental_position_def is_incremental_inference_def Let_def tensor_defs upt2
      recompute_grad_call_def is_not_literal_def)

lemma params0_causal: "params0\<lparr>causal := Some False\<rparr> = params0"
  by (simp add: params0_def)

lemma model_fixture_params0:
  "\<exists>logits l lb c'. model env0 [] features0 other0 params0 (Some dt0) (Some ctx0)
      = Inr (logits, Some l, Some lb, Some c')"
  using model_fixture[of "Some False"] by (simp add: params0_causal)

section \<open>C1: keys and values in incremental mode\<close>





text \<open>
  The attention variants receive what \<open>attn_inputs\<close> returns: with the linear variant,
  \<open>attn\<close> is the output projection of \<open>linear_attention\<close> on exactly that query, key
  and value.
\<close>

lemma attn_linear_uses_inputs:
  assumes "attn_inputs env (vs @ [scope]) x bias dim_seq ctx = Inr (q, k, v, b, ctx')"
    and "layer_num < length (attention_types params)"
    and "chars (attention_types params ! layer_num) = ''linear''"
    and "2 \<le> length (shape x)" and "n_head params \<noteq> 0"
    and "dim_size n_state mod n_head params = 0"
  shows "attn env vs x scope n_state attention_type layer_num params bias dim_seq
           memory_length_dim variable_dtype ctx
         = and_then (linear_attention q k v (1 / 1000000)) (\<lambda>a.
             Inr (tadd (compute_output env (vs @ [scope, ''compute_output'']) a (shape x))
                       (get_variable env (vs @ [scope, ''compute_output_bias'']) ''o_b''
                          [last (shape x)]), ctx'))"
  using assms
  by (simp add: attn_def attention_variant_def list_get_def Let_def)

section \<open>C2: linear attention is causal\<close>

text \<open>
  Two functions that agree wherever the coordinate of \<open>s\<close> is at most \<open>i\<close> have the
  same sums over dimensions other than \<open>s\<close> there.
\<close>

lemma sum_over_agree:
  assumes "s \<notin> set (dimension_names ds)"
    and "\<And>c. c s \<le> i \<Longrightarrow> f c = g c"
    and "c s \<le> (i::nat)"
  shows "sum_over ds f c = sum_over ds g c"
  using assms
proof (induction ds arbitrary: c)
  case Nil
  then show ?case by simp
next
  case (Cons d ds)
  have "\<And>j. sum_over ds f (c(dim_name d := j)) = sum_over ds g (c(dim_name d := j))"
    using Cons by (auto simp: dimension_names_def)
  then show ?case by simp
qed

lemma cumsum_shape: "cumsum x d = Inr y \<Longrightarrow> shape y = shape x"
  by (auto simp: cumsum_def split: if_splits)

lemma cumsum_succeeds:
  "cumsum x d = Inr y \<Longrightarrow> shape x' = shape x \<Longrightarrow> \<exists>y'. cumsum x' d = Inr y'"
  by (auto simp: cumsum_def split: if_splits)

lemma cumsum_agree:
  assumes "cumsum x d = Inr y" and "cumsum x' d = Inr y'"
    and "\<And>c. c (dim_name d) \<le> i \<Longrightarrow> val x c = val x' c"
    and "c (dim_name d) \<le> (i::nat)"
  shows "val y c = val y' c"
proof -
  have "\<And>j. (if j \<le> c (dim_name d) then val x (c(dim_name d := j)) else 0)
      = (if j \<le> c (dim_name d) then val x' (c(dim_name d := j)) else 0)"
    using assms(3,4) by auto
  then show ?thesis
    using assms(1,2) by (auto simp: cumsum_def split: if_splits)
qed

lemma einsum_shape: "einsum xs out = Inr y \<Longrightarrow> shape y = out"
  by (auto simp: einsum_def split: if_splits)

lemma einsum_succeeds:
  "einsum xs out = Inr y \<Longrightarrow> map shape xs' = map shape xs \<Longrightarrow> \<exists>y'. einsum xs' out = Inr y'"
  by (auto simp: einsum_def einsum_dims_def split: if_splits)

text \<open>
  A dimension of the output shape is never contracted: an accepted einsum has no second
  dimension of that name.
\<close>

lemma einsum_agree:
  assumes "einsum xs out = Inr y" and "einsum xs' out = Inr y'"
    and "map shape xs' = map shape xs"
    and "sd \<in> set out"
    and "\<And>c. c (dim_name sd) \<le> i \<Longrightarrow> map (\<lambda>x. val x c) xs = map (\<lambda>x. val x c) xs'"
    and "c (dim_name sd) \<le> (i::nat)"
  shows "val y c = val y' c"
proof -
  have d: "distinct (dimension_names (einsum_dims xs out))"
    using assms(1) by (auto simp: einsum_def split: if_splits)
  have cd: "contracted_dims xs' out = contracted_dims xs out"
    using assms(3) by (simp add: contracted_dims_def)
  have "dim_name sd \<notin> set (dimension_names (contracted_dims xs out))"
  proof
    assume "dim_name sd \<in> set (dimension_names (contracted_dims xs out))"
    then obtain d where dd: "d \<in> set (contracted_dims xs out)" "dim_name d = dim_name sd"
      by (auto simp: dimension_names_def)
    then have "d \<in> set (einsum_dims xs out)" "d \<notin> set out"
      by (auto simp: contracted_dims_def einsum_dims_def)
    moreover have "sd \<in> set (einsum_dims xs out)"
      using assms(4) by (auto simp: einsum_dims_def)
    ultimately show False
      using d dd(2) assms(4) by (auto simp: dimension_names_def distinct_map inj_on_def)
  qed
  then have "sum_over (contracted_dims xs out) (\<lambda>c. prod_list (map (\<lambda>x. val x c) xs)) c
      = sum_over (contracted_dims xs out) (\<lambda>c. prod_list (map (\<lambda>x. val x c) xs')) c"
    using assms(5,6) by (intro sum_over_agree[where s="dim_name sd" and i=i]) auto
  then show ?thesis
    using assms(1,2) cd by (auto simp: einsum_def split: if_splits)
qed

text \<open>
  Claim C2. Linear attention is causal. Let \<open>linear_attention q k v\<close> return \<open>a\<close>, and
  let \<open>v'\<close> have the shape of \<open>v\<close> and agree with \<open>v\<close> at every sequence position
  \<open>\<le> i\<close> (the sequence dimension is the second dimension of \<open>v\<close>, as the source reads
  it); \<open>v'\<close> is free at the positions \<open>> i\<close>. Then \<open>linear_attention q k v'\<close> returns
  too, and its output equals \<open>a\<close> at every sequence position \<open>\<le> i\<close>, in particular at
  \<open>i\<close>.
\<close>

theorem linear_attention_causal:
  assumes "linear_attention q k v eps = Inr a"
    and "shape v' = shape v"
    and "\<forall>c. c (dim_name (shape v ! 1)) \<le> i \<longrightarrow> val v' c = val v c"
  shows "\<exists>a'. linear_attention q k v' eps = Inr a' \<and>
     (\<forall>c. c (dim_name (shape v ! 1)) \<le> i \<longrightarrow> val a' c = val a c)"
proof -
  from assms(1) obtain bd sd hd od q1 k1 din q2 ck ctx cctx where
    s: "shape_at v 0 = Inr bd" "shape_at v 1 = Inr sd" "shape_at v 2 = Inr hd"
      "shape_at v 3 = Inr od"
    and r: "rename_dimension q ''features_per_head'' ''features_per_head_in'' = Inr q1"
      "rename_dimension k ''features_per_head'' ''features_per_head_in'' = Inr k1"
      "shape_last k1 = Inr din" "softmax q1 din = Inr q2"
      "cumsum (tadd (elu k1) (scalar 1)) sd = Inr ck"
    and e1: "einsum [tadd (elu k1) (scalar 1), v] [bd, sd, hd, din, od] = Inr ctx"
    and c1: "cumsum ctx sd = Inr cctx"
    and e2: "einsum [q2, tdiv cctx (tadd ck (scalar eps))] [bd, sd, hd, od] = Inr a"
    unfolding linear_attention_def and_then_Inr Let_def by blast
  have "shape_at v' n = shape_at v n" for n
    by (simp add: shape_at_def assms(2))
  then have s': "shape_at v' 0 = Inr bd" "shape_at v' (Suc 0) = Inr sd"
    "shape_at v' 2 = Inr hd" "shape_at v' 3 = Inr od"
    using s by simp_all
  have sd: "sd = shape v ! 1"
    using s(2) by (auto simp: shape_at_def split: if_splits)
  obtain ctx' where e1': "einsum [tadd (elu k1) (scalar 1), v'] [bd, sd, hd, din, od] = Inr ctx'"
    using einsum_succeeds[OF e1, of "[tadd (elu k1) (scalar 1), v']"] assms(2) by auto
  have a1: "val ctx' c = val ctx c" if "c (dim_name sd) \<le> i" for c
    using einsum_agree[OF e1' e1, where sd=sd and i=i and c=c] that assms(2,3) sd by simp
  obtain cctx' where c1': "cumsum ctx' sd = Inr cctx'"
    using cumsum_succeeds[OF c1, of ctx'] einsum_shape[OF e1] einsum_shape[OF e1'] by auto
  have a2: "val cctx' c = val cctx c" if "c (dim_name sd) \<le> i" for c
    using cumsum_agree[OF c1' c1, where i=i and c=c] that a1 by simp
  have sh: "shape cctx' = shape cctx"
    using cumsum_shape[OF c1] cumsum_shape[OF c1'] einsum_shape[OF e1] einsum_shape[OF e1']
    by simp
  obtain a' where e2': "einsum [q2, tdiv cctx' (tadd ck (scalar eps))] [bd, sd, hd, od] = Inr a'"
    using einsum_succeeds[OF e2, of "[q2, tdiv cctx' (tadd ck (scalar eps))]"] sh
    by (auto simp: tdiv_def)
  have a3: "val a' c = val a c" if "c (dim_name sd) \<le> i" for c
    using einsum_agree[OF e2' e2, where sd=sd and i=i and c=c] that a2 sh
    by (simp add: tdiv_def)
  have "linear_attention q k v' eps = Inr a'"
    by (simp add: linear_attention_def and_then_def s' r e1' c1' e2')
  then show ?thesis using a3 sd by auto
qed

lemma linear_attention_ones: "\<exists>a. linear_attention ones ones ones (1 / 1000000) = Inr a"
  by (simp add: linear_attention_def and_then_def shape_at_def ones_def qkv_shape_def
      rename_dimension_def dimension_names_def dim_name_def dim_size_def shape_last_def
      softmax_def cumsum_def einsum_def einsum_dims_def tadd_def tdiv_def elu_def unary_op_def
      scalar_def union_dims_def Let_def)

theorem linear_attention_causal_witness:
  "\<exists>a a'. linear_attention ones ones ones (1 / 1000000) = Inr a \<and>
     linear_attention ones ones late_change (1 / 1000000) = Inr a' \<and>
     val late_change (\<lambda>n. 1) \<noteq> val ones (\<lambda>n. 1) \<and>
     val a' (\<lambda>n. 0) = val a (\<lambda>n. 0)"
proof -
  obtain a where a: "linear_attention ones ones ones (1 / 1000000) = Inr a"
    using linear_attention_ones by blast
  have "\<exists>a'. linear_attention ones ones late_change (1 / 1000000) = Inr a' \<and>
     (\<forall>c. c (dim_name (shape ones ! 1)) \<le> 0 \<longrightarrow> val a' c = val a c)"
    by (rule linear_attention_causal[OF a])
      (simp_all add: ones_def late_change_def qkv_shape_def dim_name_def)
  then show ?thesis
    using a by (auto simp: ones_def late_change_def qkv_shape_def dim_name_def)
qed

section \<open>C3: a layer without attention\<close>

lemma val_pre_residual_fn:
  "val (tadd x (pre_residual_fn env vs params x scope)) c =
     (if truthy (rezero_flag params)
      then val x c + val x c * variable env (vs @ [scope]) ''g'' c
      else val x c + val x c)"
  by (simp add: pre_residual_fn_def rezero_def identity_def get_variable_def tadd_def tmul_def)

text \<open>
  Claim C3, as stated, fails. With the attention type the literal "none", no rezero and
  the input \<open>tokens0\<close>, the attention sub-layer hands \<open>tokens0 + tokens0\<close> to the
  feed-forward sub-layer: 2 at the second position, where the block's input is 1.
\<close>

theorem attention_none_counterexample:
  "attention_sublayer env0 [''h0''] params_plain 0 None (''sequence'', 2)
      (''memory_length'', 2) dt0 None (''sequence'', 2) tokens0
     = Inr (tadd tokens0 tokens0, None) \<and>
   val tokens0 second_position = 1 \<and> val (tadd tokens0 tokens0) second_position = 2"
  by (simp add: attention_sublayer_def list_get_def params_plain_def params0_def
      is_not_literal_def tokens0_def pre_residual_fn_def truthy_def identity_def tadd_def
      second_position_def)

text \<open>
  Claim C3, amended. For a layer whose configured attention type is the very object of
  the literal "none" (the test of line 332 takes its else branch), the block does not call
  the attention layer and leaves the context as it is: the sub-layer's output is the
  block's input \<open>x\<close> itself, and the residual add gives the feed-forward sub-layer
  \<open>x + x\<close>, or \<open>x + g * x\<close> under rezero (\<open>g\<close> the learned scalar of
  \<open>norm_rezero_1\<close>), not \<open>x\<close>. Nothing is said here of a type that reads "none" and
  is another object.
\<close>

theorem block_attention_none:
  assumes "layer_num < length (attention_types params)"
    and "attention_types params ! layer_num = PyStr ''none'' True"
    and "shape x \<noteq> []"
  shows "block env vs params scope layer_num bias sequence_dim memory_length_dim variable_dtype
           ctx x
         = and_then (feed_forward_sublayer env (vs @ [scope]) params layer_num variable_dtype
                       (last (shape x))
                       (tadd x (pre_residual_fn env (vs @ [scope]) params x ''norm_rezero_1'')))
             (\<lambda>(y, aux_loss). Inr (y, aux_loss, ctx)) \<and>
         (\<forall>c. val (tadd x (pre_residual_fn env (vs @ [scope]) params x ''norm_rezero_1'')) c =
              (if truthy (rezero_flag params)
               then val x c + val x c * variable env (vs @ [scope, ''norm_rezero_1'']) ''g'' c
               else val x c + val x c))"
  using assms
  by (simp add: block_def attention_sublayer_def list_get_def shape_last_def
      is_not_literal_def val_pre_residual_fn)

theorem block_attention_none_witness:
  "block env0 [] params_plain ''h0'' 0 None (''sequence'', 2) (''memory_length'', 2) dt0 None
     tokens0
   = and_then (feed_forward_sublayer env0 [''h0''] params_plain 0 dt0 (''sequence'', 2)
                 (tadd tokens0
                    (pre_residual_fn env0 [''h0''] params_plain tokens0 ''norm_rezero_1'')))
       (\<lambda>(y, aux_loss). Inr (y, aux_loss, None)) \<and>
   val (tadd tokens0 (pre_residual_fn env0 [''h0''] params_plain tokens0 ''norm_rezero_1''))
     second_position = 2"
  using block_attention_none[of 0 params_plain tokens0 env0 "[]" "''h0''" None
      "(''sequence'', 2)" "(''memory_length'', 2)" dt0 None]
  by (simp add: params_plain_def params0_def tokens0_def truthy_def second_position_def)

section \<open>The result of a training run\<close>

lemma layers_aux_losses:
  assumes "layers env vs other params sequence_dim variable_dtype ls h aux ctx
             = Inr (h', aux', ctx')"
  shows "\<exists>losses. layer_aux_losses env vs other params sequence_dim variable_dtype ls h ctx
             = Inr losses \<and> length losses = length ls \<and>
           (\<forall>c. val aux' c = val aux c + sum_list (map (\<lambda>loss. val loss c) losses))"
  using assms
proof (induction ls arbitrary: h aux ctx)
  case Nil
  then show ?case by simp
next
  case (Cons l ls)
  from Cons.prems obtain h1 loss1 ctx1 where
    b: "block env vs params
          (''h'' @ (if share_parameters params \<noteq> Some True then str_nat l else []))
          l (Some (attn_bias other)) sequence_dim (memory_length_dim_of other) variable_dtype
          ctx h = Inr (h1, loss1, ctx1)"
    and r: "layers env vs other params sequence_dim variable_dtype ls h1 (tadd aux loss1) ctx1
          = Inr (h', aux', ctx')"
    by (auto simp: Let_def and_then_Inr recompute_grad_call_def split: if_splits)
  from Cons.IH[OF r] obtain losses where
    l: "layer_aux_losses env vs other params sequence_dim variable_dtype ls h1 ctx1 = Inr losses"
      "length losses = length ls"
      "\<And>c. val aux' c = val (tadd aux loss1) c + sum_list (map (\<lambda>loss. val loss c) losses)"
    by blast
  have "layer_aux_losses env vs other params sequence_dim variable_dtype (l # ls) h ctx
      = Inr (loss1 # losses)"
    using b l(1) by simp
  moreover have
    "\<And>c. val aux' c = val aux c + sum_list (map (\<lambda>loss. val loss c) (loss1 # losses))"
    using l(3) by (simp add: tadd_def)
  ultimately show ?case using l(2) by auto
qed

text \<open>Without mixture-of-experts layers every block's auxiliary loss is the scalar 0.\<close>

lemma block_aux_zero:
  assumes "block env vs params scope layer_num bias sequence_dim memory_length_dim
             variable_dtype ctx x = Inr (y, aux, ctx')"
    and "moe_layers params = None"
  shows "aux = scalar 0"
  using assms
  by (auto simp: block_def feed_forward_sublayer_def and_then_Inr Let_def split: if_splits)

lemma layer_aux_losses_zero:
  assumes "layer_aux_losses env vs other params sequence_dim variable_dtype ls h ctx
             = Inr losses"
    and "moe_layers params = None"
  shows "sum_list (map (\<lambda>loss. val loss c) losses) = 0"
  using assms(1)
proof (induction ls arbitrary: h ctx losses)
  case Nil
  then show ?case by simp
next
  case (Cons l ls)
  from Cons.prems obtain h1 loss1 ctx1 rest where
    b: "block env vs params
          (''h'' @ (if share_parameters params \<noteq> Some True then str_nat l else []))
          l (Some (attn_bias other)) sequence_dim (memory_length_dim_of other) variable_dtype
          ctx h = Inr (h1, loss1, ctx1)"
    and r: "layer_aux_losses env vs other params sequence_dim variable_dtype ls h1 ctx1
          = Inr rest"
    and l: "losses = loss1 # rest"
    by (auto simp: and_then_Inr)
  have "val loss1 c = 0"
    using block_aux_zero[OF b assms(2)] by (simp add: scalar_def)
  then show ?case using Cons.IH[OF r] l by simp
qed

text \<open>
  Everything a run of \<open>model\<close> in train mode returns: the per-position loss is the
  cross-entropy of the returned logits and the labels, with the padding positions zeroed
  unless \<open>causal\<close> holds, and the loss is its mean over all its dimensions plus the
  blocks' auxiliary losses, over the number of microbatches.
\<close>

lemma model_train_result:
  assumes "model env vs mtf_features other params variable_dtype ctx
             = Inr (logits, loss, loss_batch, ctx')"
    and "mode params = ''train''"
  shows "\<exists>l lb labels dt batch_dim sequence_dim wte h0 losses.
      loss = Some l \<and> loss_batch = Some lb \<and> variable_dtype = Some dt \<and>
      mtf_features ''labels'' = Some labels \<and>
      lb = (if \<not> truthy (causal params)
            then where_t (not_equal labels
                            (scalar (of_int (case padding_id params of None \<Rightarrow> 0 | Some i \<Rightarrow> i))))
                   (softmax_cross_entropy_with_logits env logits labels (last (shape logits))
                      (case z_loss params of None \<Rightarrow> 1 / 10000 | Some z \<Rightarrow> z))
                   (zeros_like
                      (softmax_cross_entropy_with_logits env logits labels (last (shape logits))
                         (case z_loss params of None \<Rightarrow> 1 / 10000 | Some z \<Rightarrow> z)))
            else softmax_cross_entropy_with_logits env logits labels (last (shape logits))
                   (case z_loss params of None \<Rightarrow> 1 / 10000 | Some z \<Rightarrow> z)) \<and>
      embed env vs mtf_features other params ctx = Inr (batch_dim, sequence_dim, wte, h0) \<and>
      layer_aux_losses env vs other params sequence_dim dt [0..<n_layer params] h0 ctx
        = Inr losses \<and>
      length losses = n_layer params \<and>
      num_microbatches params \<noteq> 0 \<and>
      (\<forall>c. val l c =
             (sum_over (shape lb) (val lb) c / real (shape_size (shape lb))
                + sum_list (map (\<lambda>loss. val loss c) losses))
             / real (num_microbatches params))"
proof -
  from assms(1) obtain dt where dt: "variable_dtype = Some dt"
    by (cases variable_dtype) (auto simp: model_def)
  from assms(1)[unfolded dt model_Inr] obtain batch_dim sequence_dim wte h0 h aux_losses where
    e: "embed env vs mtf_features other params ctx = Inr (batch_dim, sequence_dim, wte, h0)"
    and ls: "layers env vs other params sequence_dim dt [0..<n_layer params] h0
               (constant_variable 0 []) ctx = Inr (h, aux_losses, ctx')"
    and ml: "model_loss env mtf_features params logits aux_losses = Inr (loss, loss_batch)"
    by blast
  from layers_aux_losses[OF ls] obtain losses where
    la: "layer_aux_losses env vs other params sequence_dim dt [0..<n_layer params] h0 ctx
           = Inr losses"
      "length losses = n_layer params"
      "\<And>c. val aux_losses c = sum_list (map (\<lambda>loss. val loss c) losses)"
    by (auto simp: constant_variable_def)
  let ?xent = "softmax_cross_entropy_with_logits env logits"
  from ml assms(2) obtain labels where
    lab: "mtf_features ''labels'' = Some labels"
    by (auto simp: model_loss_def and_then_Inr dict_get_def split: option.splits)
  let ?lb = "if \<not> truthy (causal params)
            then where_t (not_equal labels
                            (scalar (of_int (case padding_id params of None \<Rightarrow> 0 | Some i \<Rightarrow> i))))
                   (softmax_cross_entropy_with_logits env logits labels (last (shape logits))
                      (case z_loss params of None \<Rightarrow> 1 / 10000 | Some z \<Rightarrow> z))
                   (zeros_like
                      (softmax_cross_entropy_with_logits env logits labels (last (shape logits))
                         (case z_loss params of None \<Rightarrow> 1 / 10000 | Some z \<Rightarrow> z)))
            else softmax_cross_entropy_with_logits env logits labels (last (shape logits))
                   (case z_loss params of None \<Rightarrow> 1 / 10000 | Some z \<Rightarrow> z)"
  let ?l = "tmul (tadd (reduce_mean_all ?lb) aux_losses)
              (scalar (1 / real (num_microbatches params)))"
  from ml assms(2) lab have
    m: "loss = Some ?l" "loss_batch = Some ?lb" "num_microbatches params \<noteq> 0"
    by (auto simp: model_loss_def and_then_Inr dict_get_def shape_last_def Let_def
        split: if_splits)
  have f: "\<forall>c. val ?l c =
             (sum_over (shape ?lb) (val ?lb) c / real (shape_size (shape ?lb))
                + sum_list (map (\<lambda>loss. val loss c) losses))
             / real (num_microbatches params)"
    using la(3) by (simp add: reduce_mean_all_def tadd_def tmul_def scalar_def)
  have body: "loss = Some ?l \<and> loss_batch = Some ?lb \<and> variable_dtype = Some dt \<and>
      mtf_features ''labels'' = Some labels \<and> ?lb = ?lb \<and>
      embed env vs mtf_features other params ctx = Inr (batch_dim, sequence_dim, wte, h0) \<and>
      layer_aux_losses env vs other params sequence_dim dt [0..<n_layer params] h0 ctx
        = Inr losses \<and>
      length losses = n_layer params \<and>
      num_microbatches params \<noteq> 0 \<and>
      (\<forall>c. val ?l c =
             (sum_over (shape ?lb) (val ?lb) c / real (shape_size (shape ?lb))
                + sum_list (map (\<lambda>loss. val loss c) losses))
             / real (num_microbatches params))"
    by (intro conjI m dt lab e la(1) la(2) f refl)
  show ?thesis
    by (intro exI) (rule body)
qed

text \<open>The per-position losses of the test configuration, zeroed and not.\<close>

lemma fixture_zeroed_loss:
  "sum_over (shape (where_t (not_equal tokens0 (scalar 0))
                      \<lparr>shape = shape tokens0, val = (\<lambda>c. 3)\<rparr>
                      (zeros_like \<lparr>shape = shape tokens0, val = (\<lambda>c. 3)\<rparr>)))
            (val (where_t (not_equal tokens0 (scalar 0))
                      \<lparr>shape = shape tokens0, val = (\<lambda>c. 3)\<rparr>
                      (zeros_like \<lparr>shape = shape tokens0, val = (\<lambda>c. 3)\<rparr>))) c = 3"
  "shape_size (shape (where_t (not_equal tokens0 (scalar 0))
                      \<lparr>shape = shape tokens0, val = (\<lambda>c. 3)\<rparr>
                      (zeros_like \<lparr>shape = shape tokens0, val = (\<lambda>c. 3)\<rparr>))) = 2"
  by (simp_all add: where_t_def not_equal_def zeros_like_def scalar_def tokens0_def
      union_dims_def shape_size_def dim_name_def dim_size_def upt2)

section \<open>C4: the training loss\<close>

text \<open>
  Claim C4. When \<open>model\<close> returns in train mode, it returns a loss \<open>l\<close> and a
  per-position loss \<open>lb\<close>; \<open>lb\<close> is the softmax cross-entropy (with the configured
  z-loss) of the returned logits and the labels, with the padding positions zeroed unless
  \<open>causal\<close> holds; and \<open>l\<close> is the mean of \<open>lb\<close> over all its dimensions (batch
  and sequence) plus the sum of the auxiliary losses of the \<open>n_layer\<close> blocks, divided
  by \<open>num_microbatches\<close> (which is not zero).
\<close>

theorem model_train_loss:
  assumes "model env vs mtf_features other params variable_dtype ctx
             = Inr (logits, loss, loss_batch, ctx')"
    and "mode params = ''train''"
  shows "\<exists>l lb labels dt batch_dim sequence_dim wte h0 losses.
      loss = Some l \<and> loss_batch = Some lb \<and> variable_dtype = Some dt \<and>
      mtf_features ''labels'' = Some labels \<and>
      lb = (if \<not> truthy (causal params)
            then where_t (not_equal labels
                            (scalar (of_int (case padding_id params of None \<Rightarrow> 0 | Some i \<Rightarrow> i))))
                   (softmax_cross_entropy_with_logits env logits labels (last (shape logits))
                      (case z_loss params of None \<Rightarrow> 1 / 10000 | Some z \<Rightarrow> z))
                   (zeros_like
                      (softmax_cross_entropy_with_logits env logits labels (last (shape logits))
                         (case z_loss params of None \<Rightarrow> 1 / 10000 | Some z \<Rightarrow> z)))
            else softmax_cross_entropy_with_logits env logits labels (last (shape logits))
                   (case z_loss params of None \<Rightarrow> 1 / 10000 | Some z \<Rightarrow> z)) \<and>
      embed env vs mtf_features other params ctx = Inr (batch_dim, sequence_dim, wte, h0) \<and>
      layer_aux_losses env vs other params sequence_dim dt [0..<n_layer params] h0 ctx
        = Inr losses \<and>
      length losses = n_layer params \<and>
      num_microbatches params \<noteq> 0 \<and>
      (\<forall>c. val l c =
             (sum_over (shape lb) (val lb) c / real (shape_size (shape lb))
                + sum_list (map (\<lambda>loss. val loss c) losses))
             / real (num_microbatches params))"
  using assms by (rule model_train_result)

text \<open>
  On the test configuration: the per-position loss is 0 at the first position (its label
  is the padding id) and 3 at the second, its mean is 3/2, the blocks add nothing, and
  the loss is 3/4 over the two microbatches.
\<close>

theorem model_train_loss_witness:
  "\<exists>logits l lb ctx'.
     model env0 [] features0 other0 params0 (Some dt0) (Some ctx0)
       = Inr (logits, Some l, Some lb, ctx') \<and>
     sum_over (shape lb) (val lb) (\<lambda>n. 0) / real (shape_size (shape lb)) = 3 / 2 \<and>
     val l (\<lambda>n. 0) = 3 / 4"
proof -
  obtain logits l lb c' where
    m: "model env0 [] features0 other0 params0 (Some dt0) (Some ctx0)
          = Inr (logits, Some l, Some lb, Some c')"
    using model_fixture_params0 by blast
  have tr: "mode params0 = ''train''" by (simp add: params0_def)
  from model_train_loss[OF m tr] obtain labels dt sequence_dim h0 losses where
    lab: "features0 ''labels'' = Some labels"
    and lb: "lb = (if \<not> truthy (causal params0)
            then where_t (not_equal labels
                            (scalar (of_int (case padding_id params0 of None \<Rightarrow> 0 | Some i \<Rightarrow> i))))
                   (softmax_cross_entropy_with_logits env0 logits labels (last (shape logits))
                      (case z_loss params0 of None \<Rightarrow> 1 / 10000 | Some z \<Rightarrow> z))
                   (zeros_like
                      (softmax_cross_entropy_with_logits env0 logits labels (last (shape logits))
                         (case z_loss params0 of None \<Rightarrow> 1 / 10000 | Some z \<Rightarrow> z)))
            else softmax_cross_entropy_with_logits env0 logits labels (last (shape logits))
                   (case z_loss params0 of None \<Rightarrow> 1 / 10000 | Some z \<Rightarrow> z))"
    and la: "layer_aux_losses env0 [] other0 params0 sequence_dim dt [0..<n_layer params0] h0
               (Some ctx0) = Inr losses"
    and f: "\<forall>c. val l c =
             (sum_over (shape lb) (val lb) c / real (shape_size (shape lb))
                + sum_list (map (\<lambda>loss. val loss c) losses))
             / real (num_microbatches params0)"
    by auto
  have labels: "labels = tokens0" using lab by (simp add: features0_def)
  have lb': "lb = where_t (not_equal tokens0 (scalar 0))
                      \<lparr>shape = shape tokens0, val = (\<lambda>c. 3)\<rparr>
                      (zeros_like \<lparr>shape = shape tokens0, val = (\<lambda>c. 3)\<rparr>)"
    unfolding lb labels by (simp add: params0_def env0_def truthy_def)
  have z: "sum_list (map (\<lambda>loss. val loss c) losses) = 0" for c
    by (rule layer_aux_losses_zero[OF la]) (simp add: params0_def)
  have nm: "num_microbatches params0 = 2" by (simp add: params0_def)
  have "val l (\<lambda>n. 0) = 3 / 4"
    using f z nm by (simp add: lb' fixture_zeroed_loss)
  moreover have "sum_over (shape lb) (val lb) (\<lambda>n. 0) / real (shape_size (shape lb)) = 3 / 2"
    by (simp add: lb' fixture_zeroed_loss)
  ultimately show ?thesis using m by blast
qed

section \<open>C5: what a layer records\<close>

lemma attn_inputs_context:
  assumes "attn_inputs env vs x bias dim_seq ctx = Inr (q, k, v, b, ctx')"
  shows "ctx' = map_option (\<lambda>c. record_new_states c [k, v]) ctx"
  using assms
  by (auto simp: attn_inputs_def and_then_Inr Let_def split: option.splits list.splits)

lemma attn_context:
  assumes "attn env vs x scope n_state attention_type layer_num params bias dim_seq
             memory_length_dim variable_dtype ctx = Inr (a, ctx')"
  shows "\<exists>k v. ctx' = map_option (\<lambda>c. record_new_states c [k, v]) ctx"
  using assms
  by (auto simp: attn_def Let_def and_then_Inr split: if_splits dest!: attn_inputs_context)

text \<open>
  A type that reads "none" reaches no attention variant: \<open>attn\<close> raises for it, after
  \<open>attn_inputs\<close> has recorded.
\<close>

lemma attn_none_raises:
  assumes "layer_num < length (attention_types params)"
    and "chars (attention_types params ! layer_num) = ''none''"
  shows "attn env vs x scope n_state attention_type layer_num params bias dim_seq
           memory_length_dim variable_dtype ctx \<noteq> Inr r"
proof
  assume "attn env vs x scope n_state attention_type layer_num params bias dim_seq
           memory_length_dim variable_dtype ctx = Inr r"
  then show False
    using assms
    by (auto simp: attn_def Let_def and_then_Inr list_get_def attention_variant_def
        split: if_splits)
qed

text \<open>
  A sub-layer that returns: its type either is the literal "none", and the context is
  as it was, or does not read "none", and one key and one value were recorded.
\<close>

lemma attention_sublayer_context:
  assumes "attention_sublayer env vs params layer_num bias sequence_dim memory_length_dim
             variable_dtype ctx nx x = Inr (y, ctx')"
  shows "layer_num < length (attention_types params) \<and>
     (if chars (attention_types params ! layer_num) = ''none''
      then interned (attention_types params ! layer_num) \<and> ctx' = ctx
      else \<exists>k v. ctx' = map_option (\<lambda>c. record_new_states c [k, v]) ctx)"
proof -
  from assms have len: "layer_num < length (attention_types params)"
    by (auto simp: attention_sublayer_def and_then_Inr list_get_def split: if_splits)
  show ?thesis
  proof (cases "is_not_literal (attention_types params ! layer_num) ''none''")
    case False
    then show ?thesis
      using assms len
      by (auto simp: attention_sublayer_def and_then_Inr list_get_def is_not_literal_def)
  next
    case True
    with assms len obtain res_x a where
      a: "attn env vs res_x ''attn'' nx (attention_types params ! layer_num) layer_num params
            bias sequence_dim memory_length_dim variable_dtype ctx = Inr (a, ctx')"
      by (auto simp: attention_sublayer_def and_then_Inr list_get_def)
    have "chars (attention_types params ! layer_num) \<noteq> ''none''"
      using attn_none_raises[OF len] a by blast
    then show ?thesis using len attn_context[OF a] by auto
  qed
qed

lemma block_context:
  assumes "block env vs params scope layer_num bias sequence_dim memory_length_dim
             variable_dtype ctx x = Inr (y, aux, ctx')"
  shows "layer_num < length (attention_types params) \<and>
     (if chars (attention_types params ! layer_num) = ''none''
      then interned (attention_types params ! layer_num) \<and> ctx' = ctx
      else \<exists>k v. ctx' = map_option (\<lambda>c. record_new_states c [k, v]) ctx)"
  using assms
  by (auto simp: block_def and_then_Inr dest!: attention_sublayer_context)

lemma layers_context:
  assumes "layers env vs other params sequence_dim variable_dtype ls h aux (Some c)
             = Inr (h', aux', ctx')"
  shows "\<exists>recorded. ctx' = Some (c\<lparr>new_states := new_states c @ recorded\<rparr>) \<and>
     length recorded = 2 * length (recording_layers params ls)"
  using assms
proof (induction ls arbitrary: h aux c)
  case Nil
  then show ?case by (simp add: recording_layers_def)
next
  case (Cons l ls)
  from Cons.prems obtain h1 loss1 ctx1 where
    b: "block env vs params
          (''h'' @ (if share_parameters params \<noteq> Some True then str_nat l else []))
          l (Some (attn_bias other)) sequence_dim (memory_length_dim_of other) variable_dtype
          (Some c) h = Inr (h1, loss1, ctx1)"
    and r: "layers env vs other params sequence_dim variable_dtype ls h1 (tadd aux loss1) ctx1
          = Inr (h', aux', ctx')"
    by (auto simp: Let_def and_then_Inr recompute_grad_call_def split: if_splits)
  show ?case
  proof (cases "chars (attention_types params ! l) = ''none''")
    case True
    then have "ctx1 = Some c" using block_context[OF b] by simp
    then show ?thesis using Cons.IH r True by (auto simp: recording_layers_def)
  next
    case False
    then obtain k v where c1: "ctx1 = Some (record_new_states c [k, v])"
      using block_context[OF b] by auto
    from Cons.IH[OF r[unfolded c1]] obtain recorded where
      "ctx' = Some (record_new_states c [k, v]\<lparr>new_states :=
          new_states (record_new_states c [k, v]) @ recorded\<rparr>)"
      "length recorded = 2 * length (recording_layers params ls)"
      by blast
    then have "ctx' = Some (c\<lparr>new_states := new_states c @ ([k, v] @ recorded)\<rparr>)"
      "length ([k, v] @ recorded) = 2 * length (recording_layers params (l # ls))"
      using False by (simp_all add: record_new_states_def recording_layers_def)
    then show ?thesis by blast
  qed
qed

text \<open>
  A run of \<open>model\<close> that returns on a context has recorded two states for every layer
  that does not read "none" and none for the others.
\<close>

lemma returning_model_records_states:
  assumes "model env vs mtf_features other params variable_dtype (Some c)
             = Inr (logits, loss, loss_batch, ctx')"
  shows "\<exists>recorded. ctx' = Some (c\<lparr>new_states := new_states c @ recorded\<rparr>) \<and>
     length recorded = 2 * length (recording_layers params [0..<n_layer params])"
proof -
  from assms obtain dt where dt: "variable_dtype = Some dt"
    by (cases variable_dtype) (auto simp: model_def)
  from assms[unfolded dt model_Inr] obtain sequence_dim h0 h aux_losses where
    "layers env vs other params sequence_dim dt [0..<n_layer params] h0
       (constant_variable 0 []) (Some c) = Inr (h, aux_losses, ctx')"
    by blast
  then show ?thesis by (rule layers_context)
qed

text \<open>
  Claim C5 says that a layer whose attention type is "none" records nothing. The code
  breaks this for a "none" that is not the object of its literal, as every type decoded
  from a configuration file is: on the one-layer configuration \<open>params_decoded_none\<close>
  the block calls \<open>attn\<close>, which records a key and a value in the context and then
  raises \<open>NotImplementedError\<close>, and so does the whole forward pass.
\<close>

theorem decoded_none_records_and_raises:
  "(\<exists>q k v b. attn_inputs env0 [''h0'', ''attn''] sevens (Some (attn_bias other0))
                (''sequence'', 2) (Some ctx0)
              = Inr (q, k, v, b, Some (record_new_states ctx0 [k, v]))) \<and>
   attn env0 [''h0''] sevens ''attn'' (''embd'', 2) (PyStr ''none'' False) 0 params_decoded_none
     (Some (attn_bias other0)) (''sequence'', 2) (''memory_length'', 2) dt0 (Some ctx0)
     = Inl (NotImplementedError ''Unknown attention type none!'') \<and>
   block env0 [] params_decoded_none ''h0'' 0 (Some (attn_bias other0)) (''sequence'', 2)
     (''memory_length'', 2) dt0 (Some ctx0) sevens
     = Inl (NotImplementedError ''Unknown attention type none!'') \<and>
   model env0 [] features0 other0 params_decoded_none (Some dt0) (Some ctx0)
     = Inl (NotImplementedError ''Unknown attention type none!'')"
proof (intro conjI)
  show "\<exists>q k v b. attn_inputs env0 [''h0'', ''attn''] sevens (Some (attn_bias other0))
                (''sequence'', 2) (Some ctx0)
              = Inr (q, k, v, b, Some (record_new_states ctx0 [k, v]))"
    by (simp add: attn_inputs_def incremental_position_def is_incremental_inference_def
        ctx0_def Let_def)
  show a: "attn env0 [''h0''] sevens ''attn'' (''embd'', 2) (PyStr ''none'' False) 0
     params_decoded_none (Some (attn_bias other0)) (''sequence'', 2) (''memory_length'', 2) dt0
     (Some ctx0)
     = Inl (NotImplementedError ''Unknown attention type none!'')"
    by (simp add: attn_def attn_inputs_def attention_variant_def list_get_def
        incremental_position_def is_incremental_inference_def ctx0_def sevens_def
        params_decoded_none_def params0_def dim_size_def Let_def)
  show "block env0 [] params_decoded_none ''h0'' 0 (Some (attn_bias other0)) (''sequence'', 2)
     (''memory_length'', 2) dt0 (Some ctx0) sevens
     = Inl (NotImplementedError ''Unknown attention type none!'')"
    using a
    by (simp add: block_def attention_sublayer_def prenorm_def list_get_def shape_last_def
        is_not_literal_def identity_def truthy_def sevens_def params_decoded_none_def
        params0_def)
  show "model env0 [] features0 other0 params_decoded_none (Some dt0) (Some ctx0)
     = Inl (NotImplementedError ''Unknown attention type none!'')"
    by (simp add: model_def embed_def layers.simps block_def attention_sublayer_def
      prenorm_def attn_def attn_inputs_def attention_variant_def truthy_def
      features0_def tokens0_def other0_def params_decoded_none_def params0_def env0_def
      ctx0_def qkv_shape_def incremental_position_def is_incremental_inference_def Let_def
      tensor_defs recompute_grad_call_def is_not_literal_def)
qed

section \<open>C6: padding positions in the loss\<close>

text \<open>
  Claim C6. When \<open>model\<close> returns in train mode, with \<open>causal = False\<close> the
  per-position loss it returns is the cross-entropy of the returned logits with zero put
  wherever the label equals the padding id (0 when none is configured), and it is this
  zeroed tensor whose mean over all its dimensions enters the loss: the loss is that mean
  plus the sum of the auxiliary losses of the \<open>n_layer\<close> blocks, over the
  microbatches. With \<open>causal = True\<close> the per-position loss is the cross-entropy
  unchanged.
\<close>

theorem model_padding_loss:
  assumes "model env vs mtf_features other params variable_dtype ctx
             = Inr (logits, loss, loss_batch, ctx')"
    and "mode params = ''train''"
  shows "\<exists>l lb labels dt batch_dim sequence_dim wte h0 losses.
      loss = Some l \<and> loss_batch = Some lb \<and> variable_dtype = Some dt \<and>
      mtf_features ''labels'' = Some labels \<and>
      (causal params = Some False \<longrightarrow>
         lb = where_t (not_equal labels
                         (scalar (of_int (case padding_id params of None \<Rightarrow> 0 | Some i \<Rightarrow> i))))
                (softmax_cross_entropy_with_logits env logits labels (last (shape logits))
                   (case z_loss params of None \<Rightarrow> 1 / 10000 | Some z \<Rightarrow> z))
                (zeros_like
                   (softmax_cross_entropy_with_logits env logits labels (last (shape logits))
                      (case z_loss params of None \<Rightarrow> 1 / 10000 | Some z \<Rightarrow> z))) \<and>
         (\<forall>c. val lb c =
            (if val labels c = of_int (case padding_id params of None \<Rightarrow> 0 | Some i \<Rightarrow> i)
             then 0
             else val (softmax_cross_entropy_with_logits env logits labels (last (shape logits))
                         (case z_loss params of None \<Rightarrow> 1 / 10000 | Some z \<Rightarrow> z)) c))) \<and>
      (causal params = Some True \<longrightarrow>
         lb = softmax_cross_entropy_with_logits env logits labels (last (shape logits))
                (case z_loss params of None \<Rightarrow> 1 / 10000 | Some z \<Rightarrow> z)) \<and>
      embed env vs mtf_features other params ctx = Inr (batch_dim, sequence_dim, wte, h0) \<and>
      layer_aux_losses env vs other params sequence_dim dt [0..<n_layer params] h0 ctx
        = Inr losses \<and>
      length losses = n_layer params \<and>
      num_microbatches params \<noteq> 0 \<and>
      (\<forall>c. val l c =
             (sum_over (shape lb) (val lb) c / real (shape_size (shape lb))
                + sum_list (map (\<lambda>loss. val loss c) losses))
             / real (num_microbatches params))"
proof -
  from model_train_result[OF assms] obtain l lb labels dt batch_dim sequence_dim wte h0 losses
    where m: "loss = Some l" "loss_batch = Some lb" "variable_dtype = Some dt"
      "mtf_features ''labels'' = Some labels"
    and lb: "lb = (if \<not> truthy (causal params)
            then where_t (not_equal labels
                            (scalar (of_int (case padding_id params of None \<Rightarrow> 0 | Some i \<Rightarrow> i))))
                   (softmax_cross_entropy_with_logits env logits labels (last (shape logits))
                      (case z_loss params of None \<Rightarrow> 1 / 10000 | Some z \<Rightarrow> z))
                   (zeros_like
                      (softmax_cross_entropy_with_logits env logits labels (last (shape logits))
                         (case z_loss params of None \<Rightarrow> 1 / 10000 | Some z \<Rightarrow> z)))
            else softmax_cross_entropy_with_logits env logits labels (last (shape logits))
                   (case z_loss params of None \<Rightarrow> 1 / 10000 | Some z \<Rightarrow> z))"
    and r: "embed env vs mtf_features other params ctx = Inr (batch_dim, sequence_dim, wte, h0)"
      "layer_aux_losses env vs other params sequence_dim dt [0..<n_layer params] h0 ctx
        = Inr losses"
      "length losses = n_layer params"
      "num_microbatches params \<noteq> 0"
      "\<forall>c. val l c =
             (sum_over (shape lb) (val lb) c / real (shape_size (shape lb))
                + sum_list (map (\<lambda>loss. val loss c) losses))
             / real (num_microbatches params)"
    by blast
  have c1: "causal params = Some False \<longrightarrow>
         lb = where_t (not_equal labels
                         (scalar (of_int (case padding_id params of None \<Rightarrow> 0 | Some i \<Rightarrow> i))))
                (softmax_cross_entropy_with_logits env logits labels (last (shape logits))
                   (case z_loss params of None \<Rightarrow> 1 / 10000 | Some z \<Rightarrow> z))
                (zeros_like
                   (softmax_cross_entropy_with_logits env logits labels (last (shape logits))
                      (case z_loss params of None \<Rightarrow> 1 / 10000 | Some z \<Rightarrow> z))) \<and>
         (\<forall>c. val lb c =
            (if val labels c = of_int (case padding_id params of None \<Rightarrow> 0 | Some i \<Rightarrow> i)
             then 0
             else val (softmax_cross_entropy_with_logits env logits labels (last (shape logits))
                         (case z_loss params of None \<Rightarrow> 1 / 10000 | Some z \<Rightarrow> z)) c))"
    using lb
    by (simp add: truthy_def where_t_def not_equal_def zeros_like_def scalar_def)
  have c2: "causal params = Some True \<longrightarrow>
         lb = softmax_cross_entropy_with_logits env logits labels (last (shape logits))
                (case z_loss params of None \<Rightarrow> 1 / 10000 | Some z \<Rightarrow> z)"
    using lb by (simp add: truthy_def)
  have body: "loss = Some l \<and> loss_batch = Some lb \<and> variable_dtype = Some dt \<and>
      mtf_features ''labels'' = Some labels \<and>
      (causal params = Some False \<longrightarrow>
         lb = where_t (not_equal labels
                         (scalar (of_int (case padding_id params of None \<Rightarrow> 0 | Some i \<Rightarrow> i))))
                (softmax_cross_entropy_with_logits env logits labels (last (shape logits))
                   (case z_loss params of None \<Rightarrow> 1 / 10000 | Some z \<Rightarrow> z))
                (zeros_like
                   (softmax_cross_entropy_with_logits env logits labels (last (shape logits))
                      (case z_loss params of None \<Rightarrow> 1 / 10000 | Some z \<Rightarrow> z))) \<and>
         (\<forall>c. val lb c =
            (if val labels c = of_int (case padding_id params of None \<Rightarrow> 0 | Some i \<Rightarrow> i)
             then 0
             else val (softmax_cross_entropy_with_logits env logits labels (last (shape logits))
                         (case z_loss params of None \<Rightarrow> 1 / 10000 | Some z \<Rightarrow> z)) c))) \<and>
      (causal params = Some True \<longrightarrow>
         lb = softmax_cross_entropy_with_logits env logits labels (last (shape logits))
                (case z_loss params of None \<Rightarrow> 1 / 10000 | Some z \<Rightarrow> z)) \<and>
      embed env vs mtf_features other params ctx = Inr (batch_dim, sequence_dim, wte, h0) \<and>
      layer_aux_losses env vs other params sequence_dim dt [0..<n_layer params] h0 ctx
        = Inr losses \<and>
      length losses = n_layer params \<and>
      num_microbatches params \<noteq> 0 \<and>
      (\<forall>c. val l c =
             (sum_over (shape lb) (val lb) c / real (shape_size (shape lb))
                + sum_list (map (\<lambda>loss. val loss c) losses))
             / real (num_microbatches params))"
    by (intro conjI m c1 c2 r)
  show ?thesis
    by (intro exI) (rule body)
qed

text \<open>
  On the test configuration the cross-entropy is 3 at both positions and the first label
  is the padding id. With \<open>causal = False\<close> the per-position loss is 0 and 3 and the
  loss is (3/2 + 0) / 2 = 3/4: the mean was taken after the zeroing. With
  \<open>causal = True\<close> the per-position loss is 3 and 3 and the loss is (3 + 0) / 2 = 3/2.
\<close>

theorem model_padding_loss_witness:
  "(\<exists>logits l lb ctx'.
      model env0 [] features0 other0 params0 (Some dt0) (Some ctx0)
        = Inr (logits, Some l, Some lb, ctx') \<and>
      val lb (\<lambda>n. 0) = 0 \<and> val lb second_position = 3 \<and> val l (\<lambda>n. 0) = 3 / 4) \<and>
   (\<exists>logits l lb ctx'.
      model env0 [] features0 other0 (params0\<lparr>causal := Some True\<rparr>) (Some dt0) (Some ctx0)
        = Inr (logits, Some l, Some lb, ctx') \<and>
      val lb (\<lambda>n. 0) = 3 \<and> val lb second_position = 3 \<and> val l (\<lambda>n. 0) = 3 / 2)"
proof
  obtain logits l lb c' where
    m: "model env0 [] features0 other0 params0 (Some dt0) (Some ctx0)
          = Inr (logits, Some l, Some lb, Some c')"
    using model_fixture_params0 by blast
  have tr: "mode params0 = ''train''" by (simp add: params0_def)
  have cz: "causal params0 = Some False" by (simp add: params0_def)
  from model_padding_loss[OF m tr] cz obtain labels dt sequence_dim h0 losses where
    lab: "features0 ''labels'' = Some labels"
    and lb: "lb = where_t (not_equal labels
                         (scalar (of_int (case padding_id params0 of None \<Rightarrow> 0 | Some i \<Rightarrow> i))))
                (softmax_cross_entropy_with_logits env0 logits labels (last (shape logits))
                   (case z_loss params0 of None \<Rightarrow> 1 / 10000 | Some z \<Rightarrow> z))
                (zeros_like
                   (softmax_cross_entropy_with_logits env0 logits labels (last (shape logits))
                      (case z_loss params0 of None \<Rightarrow> 1 / 10000 | Some z \<Rightarrow> z)))"
    and la: "layer_aux_losses env0 [] other0 params0 sequence_dim dt [0..<n_layer params0] h0
               (Some ctx0) = Inr losses"
    and f: "\<forall>c. val l c =
             (sum_over (shape lb) (val lb) c / real (shape_size (shape lb))
                + sum_list (map (\<lambda>loss. val loss c) losses))
             / real (num_microbatches params0)"
    by auto
  have labels: "labels = tokens0" using lab by (simp add: features0_def)
  have lb': "lb = where_t (not_equal tokens0 (scalar 0))
                      \<lparr>shape = shape tokens0, val = (\<lambda>c. 3)\<rparr>
                      (zeros_like \<lparr>shape = shape tokens0, val = (\<lambda>c. 3)\<rparr>)"
    unfolding lb labels by (simp add: params0_def env0_def)
  have z: "sum_list (map (\<lambda>loss. val loss c) losses) = 0" for c
    by (rule layer_aux_losses_zero[OF la]) (simp add: params0_def)
  have nm: "num_microbatches params0 = 2" by (simp add: params0_def)
  have "val l (\<lambda>n. 0) = 3 / 4"
    using f z nm by (simp add: lb' fixture_zeroed_loss)
  moreover have "val lb (\<lambda>n. 0) = 0" "val lb second_position = 3"
    by (simp_all add: lb' where_t_def not_equal_def zeros_like_def scalar_def tokens0_def
        second_position_def)
  ultimately show "\<exists>logits l lb ctx'.
      model env0 [] features0 other0 params0 (Some dt0) (Some ctx0)
        = Inr (logits, Some l, Some lb, ctx') \<and>
      val lb (\<lambda>n. 0) = 0 \<and> val lb second_position = 3 \<and> val l (\<lambda>n. 0) = 3 / 4"
    using m by blast
next
  obtain logits l lb c' where
    m: "model env0 [] features0 other0 (params0\<lparr>causal := Some True\<rparr>) (Some dt0) (Some ctx0)
          = Inr (logits, Some l, Some lb, Some c')"
    using model_fixture[of "Some True"] by auto
  have tr: "mode (params0\<lparr>causal := Some True\<rparr>) = ''train''" by (simp add: params0_def)
  have cz: "causal (params0\<lparr>causal := Some True\<rparr>) = Some True" by simp
  from model_padding_loss[OF m tr] cz obtain labels dt sequence_dim h0 losses where
    lab: "features0 ''labels'' = Some labels"
    and lb: "lb = softmax_cross_entropy_with_logits env0 logits labels (last (shape logits))
                   (case z_loss (params0\<lparr>causal := Some True\<rparr>) of
                      None \<Rightarrow> 1 / 10000 | Some z \<Rightarrow> z)"
    and la: "layer_aux_losses env0 [] other0 (params0\<lparr>causal := Some True\<rparr>) sequence_dim dt
               [0..<n_layer (params0\<lparr>causal := Some True\<rparr>)] h0 (Some ctx0) = Inr losses"
    and f: "\<forall>c. val l c =
             (sum_over (shape lb) (val lb) c / real (shape_size (shape lb))
                + sum_list (map (\<lambda>loss. val loss c) losses))
             / real (num_microbatches (params0\<lparr>causal := Some True\<rparr>))"
    by auto
  have labels: "labels = tokens0" using lab by (simp add: features0_def)
  have lb': "lb = \<lparr>shape = shape tokens0, val = (\<lambda>c. 3)\<rparr>"
    unfolding lb labels by (simp add: env0_def)
  have z: "sum_list (map (\<lambda>loss. val loss c) losses) = 0" for c
    by (rule layer_aux_losses_zero[OF la]) (simp add: params0_def)
  have nm: "num_microbatches (params0\<lparr>causal := Some True\<rparr>) = 2" by (simp add: params0_def)
  have "sum_over (shape tokens0) (\<lambda>c. 3) (\<lambda>n. 0) = 6" "shape_size (shape tokens0) = 2"
    by (simp_all add: tokens0_def shape_size_def dim_name_def dim_size_def upt2)
  then have "val l (\<lambda>n. 0) = 3 / 2"
    using f[rule_format, of "\<lambda>n. 0"] z nm by (simp add: lb')
  moreover have "val lb (\<lambda>n. 0) = 3" "val lb second_position = 3"
    by (simp_all add: lb')
  ultimately show "\<exists>logits l lb ctx'.
      model env0 [] features0 other0 (params0\<lparr>causal := Some True\<rparr>) (Some dt0) (Some ctx0)
        = Inr (logits, Some l, Some lb, ctx') \<and>
      val lb (\<lambda>n. 0) = 3 \<and> val lb second_position = 3 \<and> val l (\<lambda>n. 0) = 3 / 2"
    using m by blast
qed


section \<open>C7: the gated-linear feed-forward\<close>

text \<open>
  Claim C7 says that \<open>mlp_glu\<close> returns the gated product. The code never returns: its
  first call of \<open>linear\<close> leaves out the required \<open>variable_dtype\<close> and raises
  \<open>TypeError\<close> (\<open>IndexError\<close> before that when \<open>x\<close> has no dimension), for every
  input.
\<close>

theorem mlp_glu_raises:
  "mlp_glu env vs x scope n_state variable_dtype params
     = (if shape x = [] then Inl IndexError else Inl TypeError)"
  by (simp add: mlp_glu_def linear_layer_def shape_last_def)

lemma feed_forward_glu_fails:
  assumes "truthy (mlp_glu_flag params)" and "moe_layers params = None"
  shows "feed_forward_sublayer env vs params layer_num variable_dtype nx x \<noteq> Inr r"
  using assms
  by (auto simp: feed_forward_sublayer_def and_then_Inr Let_def mlp_glu_def linear_layer_def)

section \<open>C8: configuration errors\<close>

lemma attention_variant_unknown:
  assumes "attention_type \<notin> {''global'', ''local'', ''linear''}"
  shows "attention_variant env vs params attention_type q k v bias ctx dim_batch dim_heads
           dim_kv dim_seq memory_length_dim
         = Inl (NotImplementedError (''Unknown attention type '' @ attention_type @ ''!''))"
  using assms by (simp add: attention_variant_def)

lemma attn_unknown:
  assumes "layer_num < length (attention_types params)"
    and "chars (attention_types params ! layer_num) \<notin> {''global'', ''local'', ''linear''}"
  shows "attn env vs x scope n_state attention_type layer_num params bias dim_seq
           memory_length_dim variable_dtype ctx \<noteq> Inr r"
proof
  assume "attn env vs x scope n_state attention_type layer_num params bias dim_seq
           memory_length_dim variable_dtype ctx = Inr r"
  then show False
    using assms
    by (auto simp: attn_def Let_def and_then_Inr list_get_def attention_variant_unknown
        split: if_splits)
qed

lemma block_unknown:
  assumes "layer_num < length (attention_types params)"
    and "chars (attention_types params ! layer_num) \<notin> valid_attention_types"
  shows "block env vs params scope layer_num bias sequence_dim memory_length_dim
           variable_dtype ctx x \<noteq> Inr r"
proof
  assume "block env vs params scope layer_num bias sequence_dim memory_length_dim
           variable_dtype ctx x = Inr r"
  then show False
    using assms attn_unknown[OF assms(1), of env]
    by (auto simp: block_def attention_sublayer_def and_then_Inr list_get_def
        valid_attention_types_def is_not_literal_def split: if_splits)
qed

lemma layers_unknown:
  assumes "l \<in> set ls"
    and "l < length (attention_types params)"
    and "chars (attention_types params ! l) \<notin> valid_attention_types"
  shows "layers env vs other params sequence_dim variable_dtype ls h aux ctx \<noteq> Inr r"
  using assms(1)
proof (induction ls arbitrary: h aux ctx)
  case Nil
  then show ?case by simp
next
  case (Cons a ls)
  show ?case
  proof
    assume "layers env vs other params sequence_dim variable_dtype (a # ls) h aux ctx = Inr r"
    then obtain h1 loss1 ctx1 where
      b: "block env vs params
            (''h'' @ (if share_parameters params \<noteq> Some True then str_nat a else []))
            a (Some (attn_bias other)) sequence_dim (memory_length_dim_of other) variable_dtype
            ctx h = Inr (h1, loss1, ctx1)"
      and r: "layers env vs other params sequence_dim variable_dtype ls h1 (tadd aux loss1) ctx1
            = Inr r"
      by (auto simp: Let_def and_then_Inr recompute_grad_call_def split: if_splits)
    show False
    proof (cases "a = l")
      case True
      then show ?thesis using b block_unknown[OF assms(2,3)] by blast
    next
      case False
      then have "l \<in> set ls" using Cons.prems by simp
      then show ?thesis using Cons.IH r by blast
    qed
  qed
qed

lemma model_unknown:
  assumes "l < n_layer params"
    and "l < length (attention_types params)"
    and "chars (attention_types params ! l) \<notin> valid_attention_types"
  shows "\<exists>e. model env vs mtf_features other params variable_dtype ctx = Inl e"
proof (cases "model env vs mtf_features other params variable_dtype ctx")
  case (Inl e)
  then show ?thesis by blast
next
  case (Inr r)
  obtain logits loss lb ctx' where r: "r = (logits, loss, lb, ctx')" by (cases r) auto
  from Inr obtain dt where dt: "variable_dtype = Some dt"
    by (cases variable_dtype) (auto simp: model_def)
  from Inr[unfolded r dt model_Inr] obtain sequence_dim h0 h aux_losses where
    "layers env vs other params sequence_dim dt [0..<n_layer params] h0
       (constant_variable 0 []) ctx = Inr (h, aux_losses, ctx')"
    by blast
  moreover have "l \<in> set [0..<n_layer params]" using assms(1) by simp
  ultimately show ?thesis using layers_unknown[OF _ assms(2,3)] by blast
qed

lemma model_fn_unknown_model:
  assumes "model_name params \<noteq> Some ''GPT2''"
    and "mode_k \<noteq> PREDICT"
    and "serialize_num_microbatches denv (batch_dim_of mode_k params) (n_ctx params)
           (tokens_per_mb_per_replica params) \<le> 1"
  shows "model_fn env denv features labels mode_k params
     = Inl (Exception (invalid_model_message params))"
  using assms
  by (simp add: model_fn_def Let_def invalid_model_message_def)

text \<open>
  Claim C8, as stated, fails: in PREDICT mode \<open>model_fn\<close> never reads the model name.
  With the model name "GPT3" and a sampler that returns, it returns the predictions.
\<close>

theorem predict_unknown_model_counterexample:
  "model_fn env0 denv0 (Some zero_feature) None PREDICT params_unknown_model
     = Inr (PredictSpec \<lparr>orig_inputs = imported_zero, inputs = imported_zero,
                         outputs = imported_zero\<rparr>)"
  by (simp add: model_fn_def Let_def dict_get_def import_features_def batch_dim_of_def
      denv0_def params_unknown_model_def params0_def imported_zero_def)

text \<open>
  Claim C8, amended. An attention type that reads neither global, local, linear nor
  none, at a layer below \<open>n_layer\<close>, makes \<open>model\<close> fail, in every mode of
  \<open>params\<close> and with or without a context; the attention variant itself raises \<open>NotImplementedError\<close> with
  the type in its message. A model name other than "GPT2" makes \<open>model_fn\<close> raise
  \<open>Exception\<close> in TRAIN and EVAL mode when the number of microbatches is at most one.
\<close>

theorem configuration_errors:
  "(l < n_layer params \<and> l < length (attention_types params) \<and>
      chars (attention_types params ! l) \<notin> valid_attention_types
    \<longrightarrow> (\<exists>e. model env vs mtf_features other params variable_dtype ctx = Inl e)) \<and>
   (attention_type \<notin> valid_attention_types
    \<longrightarrow> attention_variant env vs params attention_type q k v bias ctx dim_batch dim_heads
          dim_kv dim_seq memory_length_dim
        = Inl (NotImplementedError (''Unknown attention type '' @ attention_type @ ''!''))) \<and>
   (model_name params \<noteq> Some ''GPT2'' \<and> mode_k \<noteq> PREDICT \<and>
      serialize_num_microbatches denv (batch_dim_of mode_k params) (n_ctx params)
        (tokens_per_mb_per_replica params) \<le> 1
    \<longrightarrow> model_fn env denv features labels mode_k params
        = Inl (Exception (invalid_model_message params)))"
proof (intro conjI impI)
  assume "l < n_layer params \<and> l < length (attention_types params) \<and>
      chars (attention_types params ! l) \<notin> valid_attention_types"
  then show "\<exists>e. model env vs mtf_features other params variable_dtype ctx = Inl e"
    using model_unknown by blast
next
  assume "attention_type \<notin> valid_attention_types"
  then have "attention_type \<notin> {''global'', ''local'', ''linear''}"
    by (simp add: valid_attention_types_def)
  then show "attention_variant env vs params attention_type q k v bias ctx dim_batch dim_heads
          dim_kv dim_seq memory_length_dim
        = Inl (NotImplementedError (''Unknown attention type '' @ attention_type @ ''!''))"
    by (rule attention_variant_unknown)
next
  assume "model_name params \<noteq> Some ''GPT2'' \<and> mode_k \<noteq> PREDICT \<and>
      serialize_num_microbatches denv (batch_dim_of mode_k params) (n_ctx params)
        (tokens_per_mb_per_replica params) \<le> 1"
  then show "model_fn env denv features labels mode_k params
        = Inl (Exception (invalid_model_message params))"
    using model_fn_unknown_model by blast
qed

theorem configuration_errors_witness:
  "(\<exists>e. model env0 [] features0 other0 params_unknown_attention (Some dt0) None = Inl e) \<and>
   attention_variant env0 [] params0 ''bogus'' ones ones ones None None (''batch'', 1)
     (''heads'', 1) (''features_per_head'', 1) (''sequence'', 2) (''memory_length'', 2)
     = Inl (NotImplementedError ''Unknown attention type bogus!'') \<and>
   model_fn env0 denv0 (Some zero_feature) (Some zero_feature) TRAIN params_unknown_model
     = Inl (Exception ''GPT3 is not a valid model - please select from GPT2'')"
  using configuration_errors[where l=1 and params=params_unknown_attention and env=env0
      and vs="[]" and mtf_features=features0 and other=other0 and variable_dtype="Some dt0"
      and ctx=None and attention_type="''bogus''"]
    configuration_errors[where params=params0 and env=env0 and vs="[]"
      and attention_type="''bogus''" and q=ones and k=ones and v=ones and bias=None
      and ctx=None and dim_batch="(''batch'', 1)" and dim_heads="(''heads'', 1)"
      and dim_kv="(''features_per_head'', 1)" and dim_seq="(''sequence'', 2)"
      and memory_length_dim="(''memory_length'', 2)"]
    configuration_errors[where params=params_unknown_model and mode_k=TRAIN and denv=denv0
      and env=env0 and features="Some zero_feature" and labels="Some zero_feature"]
  by (simp add: params_unknown_attention_def params_unknown_model_def params0_def
      valid_attention_types_def denv0_def invalid_model_message_def)

text \<open>
  With the model "GPT2", \<open>model_fn\<close> calls \<open>gpt2.model\<close> without \<open>variable_dtype\<close>:
  in TRAIN and EVAL mode with at most one microbatch it raises \<open>TypeError\<close>.
\<close>

theorem model_fn_type_error:
  assumes "model_name params = Some ''GPT2''"
    and "mode_k \<noteq> PREDICT"
    and "serialize_num_microbatches denv (batch_dim_of mode_k params) (n_ctx params)
           (tokens_per_mb_per_replica params) \<le> 1"
  shows "model_fn env denv features labels mode_k params = Inl TypeError"
  using assms
  by (simp add: model_fn_def Let_def model_def)

theorem model_fn_type_error_witness:
  "model_fn env0 denv0 (Some zero_feature) (Some zero_feature) TRAIN params0 = Inl TypeError"
  by (rule model_fn_type_error) (simp_all add: params0_def denv0_def)

section \<open>C9: the perplexity metric\<close>



section \<open>C10: the batch dimension\<close>

text \<open>
  Claim C10. The batch dimension that \<open>model_fn\<close> builds has size 1 in PREDICT mode,
  whatever \<open>train_batch_size\<close> is, and size \<open>train_batch_size\<close> in TRAIN and EVAL
  mode.
\<close>

theorem batch_dim_by_mode:
  "batch_dim_of PREDICT params = (''batch'', 1) \<and>
   batch_dim_of TRAIN params = (''batch'', train_batch_size params) \<and>
   batch_dim_of EVAL params = (''batch'', train_batch_size params)"
  by (simp add: batch_dim_of_def)

text \<open>The inputs that a PREDICT run returns were imported with that batch dimension.\<close>

lemma model_fn_predict_batch:
  assumes "model_fn env denv features labels PREDICT params = Inr spec"
  shows "\<exists>p. spec = PredictSpec p \<and>
     shape (orig_inputs p) = [(''batch'', 1), (''sequence'', n_ctx params)]"
  using assms
  by (auto simp: model_fn_def Let_def and_then_Inr dict_get_def import_features_def
      batch_dim_of_def split: option.splits)

end
